theory Spec2Isabelle
  imports Main "HOL-Library.Char_ord" "HOL-Library.List_Lexorder"
begin

section \<open>Data model\<close>

text \<open>
  The services of \<^verbatim>\<open>verus_app_backend\<close> work on two structs of package
  \<^verbatim>\<open>models\<close>: \<^verbatim>\<open>Document\<close> and \<^verbatim>\<open>Applicant\<close>. Their fields are taken from
  the struct literals of \<^verbatim>\<open>createDocumentObject\<close> and \<^verbatim>\<open>createApplicantObject\<close>.
  A \<^verbatim>\<open>time.Time\<close> is an instant on the integer line (the unit is the resolution the
  store keeps); the zero time is \<open>0\<close>. The enumerations \<^verbatim>\<open>DocumentStatus\<close> and
  \<^verbatim>\<open>DocumentType\<close> are integer types in Go (the controller test compares a document
  type with a \<^verbatim>\<open>float64\<close>), so they are integers here. A Go \<^verbatim>\<open>error\<close> is a message.
\<close>

type_synonym Time = int
type_synonym DocumentStatus = int
type_synonym DocumentType = int

datatype error = Error string

fun message :: "error \<Rightarrow> string" where
  "message (Error m) = m"

record Document =
  DocumentID :: string
  ApplicantID :: string
  DocumentType :: DocumentType
  Country :: string
  FileURL :: string
  FileSize :: int
  Status :: DocumentStatus
  CreatedAt :: Time
  UpdatedAt :: Time
  Deleted :: bool
  DeletedAt :: "Time option"
  DeletedBy :: "string option"

text \<open>The zero value \<^verbatim>\<open>models.Document{}\<close>.\<close>

definition zero_Document :: Document where
  "zero_Document =
     \<lparr>DocumentID = [], ApplicantID = [], DocumentType = 0, Country = [], FileURL = [],
      FileSize = 0, Status = 0, CreatedAt = 0, UpdatedAt = 0, Deleted = False,
      DeletedAt = None, DeletedBy = None\<rparr>"

text \<open>
  The value of the constant \<^verbatim>\<open>models.DocumentUploaded\<close> is declared outside the
  repository; the model takes it from the collaborators below, as their field
  \<open>DocumentUploaded\<close>.
\<close>

record RawAddress =
  Line1 :: string
  Line2 :: string
  City :: string
  Region :: string
  PostalCode :: string
  Country :: string

text \<open>Ciphertexts and keys are byte strings.\<close>

record EncryptedData =
  DOB :: string
  Address :: string
  EncryptedKey :: string

record Applicant =
  ApplicantID :: string
  FirstName :: string
  MiddleName :: string
  LastName :: string
  Email :: string
  Phone :: string
  ClientID :: string
  EncryptedData :: EncryptedData
  CreatedAt :: Time
  UpdatedAt :: Time
  Deleted :: bool
  DeletedAt :: "Time option"
  DeletedBy :: "string option"
  Documents :: "Document list"
  VerificationLevel :: string

definition zero_Applicant :: Applicant where
  "zero_Applicant =
     \<lparr>Applicant.ApplicantID = [], FirstName = [], MiddleName = [], LastName = [],
      Email = [], Phone = [], ClientID = [],
      EncryptedData = \<lparr>DOB = [], Address = [], EncryptedKey = []\<rparr>,
      Applicant.CreatedAt = 0, Applicant.UpdatedAt = 0, Applicant.Deleted = False,
      Applicant.DeletedAt = None, Applicant.DeletedBy = None, Documents = [],
      VerificationLevel = []\<rparr>"

subsection \<open>BSON documents\<close>

text \<open>
  A \<^verbatim>\<open>bson.M\<close> is a Go map from field names to values. It is an association list
  here: the order of the list is the order in which an iteration happens to visit the
  map, which Go leaves open.
\<close>

datatype bval =
    BNull
  | BStr string
  | BBool bool
  | BInt int
  | BTime Time
  | BDoc Document
  | BArr "bval list"
  | BMap "(string \<times> bval) list"

type_synonym bsonM = "(string \<times> bval) list"

subsection \<open>The world: store, cache and HTTP response\<close>

text \<open>
  The body of a \<^verbatim>\<open>c.JSON\<close> call is a \<^verbatim>\<open>gin.H\<close> of strings or a struct.
\<close>

datatype body =
    H "(string \<times> string) list"
  | DocumentBody Document
  | ApplicantBody Applicant

datatype store_call =
    InsertOneCall Applicant
  | UpdateOneCall bsonM bsonM
  | FindOneCall bsonM

text \<open>
  The state the code works on: the \<^verbatim>\<open>applicants\<close> collection of the authoritative
  store with the journal of the calls issued to it, the cache backend (a key holds the
  \<^verbatim>\<open>documents\<close> array of a cached projection), and what has been written to the HTTP
  response through \<^verbatim>\<open>c.JSON\<close>.
\<close>

record world =
  store :: "Applicant list"
  store_calls :: "store_call list"
  cache :: "string \<rightharpoonup> Document list"
  responses :: "(nat \<times> body) list"

definition JSON :: "nat \<Rightarrow> body \<Rightarrow> world \<Rightarrow> world" where
  "JSON code b w = w\<lparr>responses := responses w @ [(code, b)]\<rparr>"

subsection \<open>The collaborators outside the repository\<close>

text \<open>
  The functions of \<^verbatim>\<open>verus_backend_core\<close> (packages \<^verbatim>\<open>common\<close>, \<^verbatim>\<open>utils\<close>,
  \<^verbatim>\<open>models\<close>), the collection handle, the uploader, the KMS client and the Go standard
  library are called by the services but are not part of the repository. The services
  are modelled over a record of them. A Go function returning \<^verbatim>\<open>(v, err)\<close> returns a
  pair whose second component is \<open>None\<close> for \<^verbatim>\<open>nil\<close>.
\<close>

record env =
  GenerateCacheKey :: "string \<Rightarrow> bsonM \<Rightarrow> string \<times> error option"
  CacheWrapper :: "string \<Rightarrow> string \<Rightarrow> bsonM \<Rightarrow> bsonM \<Rightarrow> world
                     \<Rightarrow> world \<times> Document list \<times> error option"
  InvalidateCache :: "string \<Rightarrow> string \<Rightarrow> bsonM \<Rightarrow> bsonM \<Rightarrow> world \<Rightarrow> world \<times> error option"
  GetCollection :: "string \<Rightarrow> bool"
  InsertOne :: "Applicant \<Rightarrow> world \<Rightarrow> world \<times> error option"
  UpdateOne :: "bsonM \<Rightarrow> bsonM \<Rightarrow> world \<Rightarrow> world \<times> error option"
  FindOne :: "bsonM \<Rightarrow> world \<Rightarrow> world \<times> Applicant \<times> error option"
  GetClientIDFromContext :: "string \<times> error option"
  ParseDocumentType :: "string \<Rightarrow> DocumentType \<times> error option"
  ParseDocumentStatus :: "string \<Rightarrow> DocumentStatus \<times> error option"
  DocumentUploaded :: DocumentStatus
  ExtensionsByType :: "string \<Rightarrow> string list \<times> error option"
  UploadFile :: "string \<Rightarrow> string \<Rightarrow> string \<times> error option"
  GenerateDataKey :: "string \<times> string \<times> error option"
  EncryptField :: "string \<Rightarrow> string \<Rightarrow> string \<times> error option"
  EncryptAddress :: "RawAddress \<Rightarrow> string \<Rightarrow> string \<times> error option"

text \<open>
  \<^verbatim>\<open>constants.CollectionApplicants\<close>; the controllers open the same collection as
  \<^verbatim>\<open>common.GetCollection("applicants")\<close>.
\<close>

definition CollectionApplicants :: string where
  "CollectionApplicants = ''applicants''"

section \<open>The document service\<close>

text \<open>
  \<^verbatim>\<open>mimeTypeToExtension\<close> and \<^verbatim>\<open>GetFileExtension\<close>. For a MIME type outside the
  table the code asks \<^verbatim>\<open>mime.ExtensionsByType\<close>.
\<close>

definition mimeTypeToExtension :: "string \<rightharpoonup> string" where
  "mimeTypeToExtension =
     map_of [(''application/pdf'', ''.pdf''), (''image/jpeg'', ''.jpeg''), (''image/png'', ''.png'')]"

definition GetFileExtension :: "env \<Rightarrow> string \<Rightarrow> string \<times> error option" where
  "GetFileExtension E mimeType =
     (case mimeTypeToExtension mimeType of
        Some ext \<Rightarrow> (ext, None)
      | None \<Rightarrow>
          (case ExtensionsByType E mimeType of
             (exts, Some err) \<Rightarrow> ([], Some (Error (''unsupported MIME type: '' @ mimeType)))
           | ([], None) \<Rightarrow> ([], Some (Error (''unsupported MIME type: '' @ mimeType)))
           | (ext # _, None) \<Rightarrow> (ext, None)))"

text \<open>
  \<^verbatim>\<open>createDocumentObject\<close>. The identifier drawn by \<^verbatim>\<open>uuid.New()\<close> and the reading
  of \<^verbatim>\<open>time.Now()\<close> are arguments. The error of \<^verbatim>\<open>models.ParseDocumentType\<close> is
  dropped by the code (\<^verbatim>\<open>document_type, _ := ...\<close>).
\<close>

definition createDocumentObject ::
  "env \<Rightarrow> string \<Rightarrow> Time \<Rightarrow> string \<Rightarrow> string \<Rightarrow> string \<Rightarrow> Document" where
  "createDocumentObject E uuid now applicantID documentType country =
     (let document_type = fst (ParseDocumentType E documentType) in
      \<lparr>DocumentID = uuid,
       Document.ApplicantID = applicantID,
       DocumentType = document_type,
       Document.Country = country,
       FileURL = ''placeholder'',
       FileSize = 0,
       Status = DocumentUploaded E,
       Document.CreatedAt = now,
       Document.UpdatedAt = now,
       Document.Deleted = False,
       Document.DeletedAt = None,
       Document.DeletedBy = None\<rparr>)"

text \<open>
  \<^verbatim>\<open>CreateDocument\<close> pushes the document onto the \<^verbatim>\<open>documents\<close> array of the
  applicant through \<^verbatim>\<open>collection.UpdateOne\<close> and answers the request itself.
\<close>

definition CreateDocument :: "env \<Rightarrow> string \<Rightarrow> Document \<Rightarrow> world \<Rightarrow> world" where
  "CreateDocument E applicantID document w =
     (let filter = [(''applicant_id'', BStr applicantID), (''deleted'', BBool False)];
          update = [(''$push'', BMap [(''documents'', BDoc document)])]
      in case UpdateOne E filter update w of
           (w', Some err) \<Rightarrow> JSON 500 (H [(''error'', ''Could not create document'')]) w'
         | (w', None) \<Rightarrow>
             JSON 200 (H [(''message'', ''Document created successfully''),
                          (''document_id'', DocumentID document)]) w')"

text \<open>
  What \<^verbatim>\<open>UploadDocument\<close> reads from the request: the outcome of
  \<^verbatim>\<open>ParseMultipartForm\<close>, the outcome of \<^verbatim>\<open>FormFile("document")\<close> (the
  \<^verbatim>\<open>Content-Type\<close> header of the part, or an error) and the form values (a missing
  value reads as the empty string).
\<close>

record upload_request =
  multipart_err :: "error option"
  form_file :: "string \<times> error option"
  form_values :: "string \<Rightarrow> string"

definition UploadDocument ::
  "env \<Rightarrow> string \<Rightarrow> Time \<Rightarrow> upload_request \<Rightarrow> world \<Rightarrow> world \<times> Document \<times> error option" where
  "UploadDocument E uuid now r w =
     (case multipart_err r of
        Some err \<Rightarrow> (w, zero_Document, Some (Error (''unable to parse form data: '' @ message err)))
      | None \<Rightarrow>
     (case form_file r of
        (_, Some err) \<Rightarrow>
          (w, zero_Document, Some (Error (''unable to retrieve the file: '' @ message err)))
      | (mimeType, None) \<Rightarrow>
     if mimeType = [] then (w, zero_Document, Some (Error ''unable to determine MIME type''))
     else if mimeTypeToExtension mimeType = None
       then (w, zero_Document, Some (Error (''unsupported MIME type: '' @ mimeType)))
     else
     (case GetFileExtension E mimeType of
        (_, Some err) \<Rightarrow>
          (w, zero_Document, Some (Error (''unsupported file extension type: '' @ mimeType)))
      | (ext, None) \<Rightarrow>
     (let applicantID = form_values r ''applicant_id'' in
      if applicantID = [] then (w, zero_Document, Some (Error ''applicant_id is required''))
      else
     (let documentType = form_values r ''document_type'' in
      if documentType = [] then (w, zero_Document, Some (Error ''document_type is required''))
      else
     (let country = form_values r ''country'' in
      if country = [] then (w, zero_Document, Some (Error ''country is required''))
      else
     (let doc = createDocumentObject E uuid now applicantID documentType country;
          fileName = DocumentID doc @ ext
      in case UploadFile E fileName mimeType of
           (_, Some err) \<Rightarrow>
             (w, zero_Document, Some (Error (''error uploading file to S3: '' @ message err)))
         | (fileURL, None) \<Rightarrow>
             (let doc' = doc\<lparr>FileURL := fileURL\<rparr>
              in (CreateDocument E applicantID doc' w, doc', None)))))))))"

text \<open>
  \<^verbatim>\<open>GenerateFilterAndCacheKey\<close> of the document service. On an error of
  \<^verbatim>\<open>common.GenerateCacheKey\<close> the filter is \<^verbatim>\<open>nil\<close> and the key is empty.
\<close>

definition GenerateFilterAndCacheKey ::
  "env \<Rightarrow> string \<Rightarrow> string \<Rightarrow> string \<Rightarrow> bsonM \<times> string \<times> error option" where
  "GenerateFilterAndCacheKey E applicantID docID collectionName =
     (let filter = [(''applicant_id'', BStr applicantID),
                    (''deleted'', BBool False),
                    (''documents.document_id'', BStr docID)]
      in case GenerateCacheKey E collectionName filter of
           (_, Some err) \<Rightarrow> ([], [], Some err)
         | (cacheKey, None) \<Rightarrow> (filter, cacheKey, None))"

text \<open>
  \<^verbatim>\<open>GetDocument\<close>. The \<^verbatim>\<open>collection\<close> argument is not used by the code: the read
  goes through \<^verbatim>\<open>common.CacheWrapper\<close>, which decodes into
  \<^verbatim>\<open>result.Documents\<close>.
\<close>

definition GetDocument ::
  "env \<Rightarrow> string \<Rightarrow> string \<Rightarrow> world \<Rightarrow> world \<times> Document \<times> error option" where
  "GetDocument E applicantID docID w =
     (let collectionName = CollectionApplicants
      in case GenerateFilterAndCacheKey E applicantID docID collectionName of
           (_, _, Some err) \<Rightarrow>
             (JSON 500 (H [(''error'', ''Error generating filter and cache key'')]) w,
              zero_Document, Some err)
         | (filter', cacheKey, None) \<Rightarrow>
             (let projection =
                    [(''documents'', BMap [(''$elemMatch'', BMap [(''document_id'', BStr docID)])])]
              in case CacheWrapper E collectionName cacheKey filter' projection w of
                   (w', _, Some err) \<Rightarrow> (w', zero_Document, Some err)
                 | (w', d # _, None) \<Rightarrow> (w', d, None)
                 | (w', [], None) \<Rightarrow> (w', zero_Document, None)))"

text \<open>\<^verbatim>\<open>UpdateDocument\<close>; \<open>now\<close> is the reading of \<^verbatim>\<open>time.Now()\<close>.\<close>

definition UpdateDocument ::
  "env \<Rightarrow> Time \<Rightarrow> string \<Rightarrow> string \<Rightarrow> DocumentStatus \<Rightarrow> world
     \<Rightarrow> world \<times> Document \<times> error option" where
  "UpdateDocument E now applicantID docID status w =
     (let collectionName = CollectionApplicants
      in case GenerateFilterAndCacheKey E applicantID docID collectionName of
           (_, _, Some err) \<Rightarrow>
             (JSON 500 (H [(''error'', ''Error generating filter and cache key'')]) w,
              zero_Document, Some err)
         | (filter', cacheKey, None) \<Rightarrow>
             (let update = [(''$set'', BMap [(''documents.$.status'', BInt status),
                                            (''documents.$.updated_at'', BTime now)])]
              in case InvalidateCache E collectionName cacheKey filter' update w of
                   (w1, Some err) \<Rightarrow>
                     (JSON 500 (H [(''error'', ''Error invalidating cache'')]) w1,
                      zero_Document, Some err)
                 | (w1, None) \<Rightarrow>
                     (case GetDocument E applicantID docID w1 of
                        (w2, _, Some err) \<Rightarrow>
                          (JSON 500 (H [(''error'', ''Could not retrieve updated document'')]) w2,
                           zero_Document, Some err)
                      | (w2, result, None) \<Rightarrow> (w2, result, None))))"

text \<open>
  The controller \<^verbatim>\<open>UpdateDocument\<close>. It is given the service as an interface value
  (\<open>service\<close>), the \<^verbatim>\<open>id\<close> parameter of the route and the outcome of binding the
  JSON body (\<^verbatim>\<open>status\<close> and \<^verbatim>\<open>applicant_id\<close>).
\<close>

definition UpdateDocument_controller ::
  "env \<Rightarrow> (string \<Rightarrow> string \<Rightarrow> DocumentStatus \<Rightarrow> world \<Rightarrow> world \<times> Document \<times> error option)
     \<Rightarrow> string \<Rightarrow> (string \<times> string) \<times> error option \<Rightarrow> world \<Rightarrow> world" where
  "UpdateDocument_controller E service docID requestBody w =
     (case requestBody of
        (_, Some err) \<Rightarrow> JSON 400 (H [(''error'', ''Invalid JSON'')]) w
      | ((Status_str, ApplicantID_str), None) \<Rightarrow>
          (case ParseDocumentStatus E Status_str of
             (_, Some err) \<Rightarrow> JSON 400 (H [(''error'', ''Invalid status'')]) w
           | (status, None) \<Rightarrow>
               (case service ApplicantID_str docID status w of
                  (w', _, Some err) \<Rightarrow> JSON 404 (H [(''error'', message err)]) w'
                | (w', doc, None) \<Rightarrow> JSON 200 (DocumentBody doc) w')))"

section \<open>The applicant service\<close>

text \<open>
  The service struct holds \<^verbatim>\<open>CollectionName\<close>; it is the argument \<open>s\<close>. The
  handle of \<^verbatim>\<open>common.GetCollection\<close> is checked against \<^verbatim>\<open>nil\<close> by
  \<^verbatim>\<open>GetApplicant\<close> only; \<^verbatim>\<open>CreateApplicant\<close> uses it as it comes.
\<close>

definition CreateApplicant ::
  "env \<Rightarrow> string \<Rightarrow> Applicant \<Rightarrow> world \<Rightarrow> world \<times> Applicant \<times> error option" where
  "CreateApplicant E s applicant w =
     (case GetClientIDFromContext E of
        (_, Some err) \<Rightarrow> (w, applicant, Some err)
      | (clientIDStr, None) \<Rightarrow>
          (let applicant' = applicant\<lparr>ClientID := clientIDStr\<rparr>
           in case InsertOne E applicant' w of
                (w', Some err) \<Rightarrow>
                  (JSON 500 (H [(''error'', ''Could not create applicant'')]) w',
                   applicant', Some err)
              | (w', None) \<Rightarrow> (w', applicant', None)))"

definition GetApplicant ::
  "env \<Rightarrow> string \<Rightarrow> string \<Rightarrow> world \<Rightarrow> world \<times> Applicant \<times> error option" where
  "GetApplicant E s applicantID w =
     (case GetClientIDFromContext E of
        (_, Some err) \<Rightarrow> (w, zero_Applicant, Some err)
      | (clientIDStr, None) \<Rightarrow>
          (let filter = [(''client_id'', BStr clientIDStr),
                         (''applicant_id'', BStr applicantID),
                         (''deleted'', BBool False)]
           in if \<not> GetCollection E s
              then (JSON 500 (H [(''error'', ''Could not fetch applicant'')]) w,
                    zero_Applicant,
                    Some (Error (''failed to get MongoDB collection: '' @ s)))
              else (case FindOne E filter w of
                      (w', applicant, Some err) \<Rightarrow>
                        (JSON 404 (H [(''error'', ''Applicant not found'')]) w',
                         applicant, Some err)
                    | (w', applicant, None) \<Rightarrow> (w', applicant, None))))"

text \<open>\<^verbatim>\<open>GenerateFilterAndCacheKey\<close> of the applicant service.\<close>

definition applicant_GenerateFilterAndCacheKey ::
  "env \<Rightarrow> string \<Rightarrow> string \<Rightarrow> string \<Rightarrow> bsonM \<times> string \<times> error option" where
  "applicant_GenerateFilterAndCacheKey E applicantID clientID collectionName =
     (let filter = [(''applicant_id'', BStr applicantID),
                    (''client_id'', BStr clientID),
                    (''deleted'', BBool False)]
      in case GenerateCacheKey E collectionName filter of
           (_, Some err) \<Rightarrow> ([], [], Some err)
         | (cacheKey, None) \<Rightarrow> (filter, cacheKey, None))"

text \<open>The assignment \<^verbatim>\<open>m[k] = v\<close> on a Go map.\<close>

fun bson_put :: "string \<Rightarrow> bval \<Rightarrow> bsonM \<Rightarrow> bsonM" where
  "bson_put k v [] = [(k, v)]"
| "bson_put k v ((k', v') # m) =
     (if k = k' then (k, v) # m else (k', v') # bson_put k v m)"

text \<open>
  \<^verbatim>\<open>UpdateApplicant\<close>: the fields of \<^verbatim>\<open>updates\<close> are copied into the update
  document and \<^verbatim>\<open>updated_at\<close> is set last.
\<close>

definition UpdateApplicant ::
  "env \<Rightarrow> string \<Rightarrow> Time \<Rightarrow> string \<Rightarrow> bsonM \<Rightarrow> world \<Rightarrow> world \<times> Applicant \<times> error option" where
  "UpdateApplicant E s now applicantID updates w =
     (case GetClientIDFromContext E of
        (_, Some err) \<Rightarrow> (w, zero_Applicant, Some err)
      | (clientIDStr, None) \<Rightarrow>
          (case applicant_GenerateFilterAndCacheKey E applicantID clientIDStr s of
             (_, _, Some err) \<Rightarrow>
               (JSON 500 (H [(''error'', ''Could not update applicant'')]) w,
                zero_Applicant, Some err)
           | (filter', cacheKey, None) \<Rightarrow>
               (let updateDoc = fold (\<lambda>(field, v) m. bson_put field v m) updates [];
                    updateDoc' = bson_put ''updated_at'' (BTime now) updateDoc;
                    update = [(''$set'', BMap updateDoc')]
                in case InvalidateCache E s cacheKey filter' update w of
                     (w1, Some err) \<Rightarrow>
                       (JSON 500 (H [(''error'', ''Error invalidating cache'')]) w1,
                        zero_Applicant, Some err)
                   | (w1, None) \<Rightarrow>
                       (case GetApplicant E s applicantID w1 of
                          (w2, _, Some err) \<Rightarrow>
                            (JSON 500 (H [(''error'', ''Could not retrieve updated document'')]) w2,
                             zero_Applicant, Some err)
                        | (w2, result, None) \<Rightarrow> (w2, result, None)))))"

section \<open>The applicant controller\<close>

text \<open>
  \<^verbatim>\<open>createApplicantObject\<close> reads the clock twice: \<open>now1\<close> is the reading for
  \<^verbatim>\<open>CreatedAt\<close>, \<open>now2\<close> the later one for \<^verbatim>\<open>UpdatedAt\<close>. The field
  \<^verbatim>\<open>SumsubApplicant\<close> is always the zero value of its struct and is left out.
\<close>

definition createApplicantObject ::
  "string \<Rightarrow> Time \<Rightarrow> Time \<Rightarrow> string \<Rightarrow> string \<Rightarrow> string \<Rightarrow> string \<Rightarrow> string \<Rightarrow> string
     \<Rightarrow> EncryptedData \<Rightarrow> Applicant" where
  "createApplicantObject uuid now1 now2 firstName middleName lastName email phone level
       encryptedData =
     \<lparr>Applicant.ApplicantID = uuid,
      FirstName = firstName,
      MiddleName = middleName,
      LastName = lastName,
      Email = email,
      Phone = phone,
      ClientID = ''placeholder'',
      EncryptedData = encryptedData,
      Applicant.CreatedAt = now1,
      Applicant.UpdatedAt = now2,
      Applicant.Deleted = False,
      Applicant.DeletedAt = None,
      Applicant.DeletedBy = None,
      Documents = [],
      VerificationLevel = level\<rparr>"

text \<open>The struct the JSON body of \<^verbatim>\<open>CreateApplicant\<close> is bound to.\<close>

record applicant_input =
  in_FirstName :: string
  in_MiddleName :: string
  in_LastName :: string
  in_Email :: string
  in_Phone :: string
  in_Address :: RawAddress
  in_DOB :: string
  in_Level :: string

text \<open>
  The controller \<^verbatim>\<open>CreateApplicant\<close>. \<open>raw_err\<close> is the outcome of
  \<^verbatim>\<open>c.GetRawData()\<close>, \<open>bound\<close> that of \<^verbatim>\<open>c.ShouldBindJSON(&input)\<close>, and
  \<open>service\<close> the \<^verbatim>\<open>CreateApplicant\<close> method of the service interface.
\<close>

definition CreateApplicant_controller ::
  "env \<Rightarrow> (Applicant \<Rightarrow> world \<Rightarrow> world \<times> Applicant \<times> error option)
     \<Rightarrow> string \<Rightarrow> Time \<Rightarrow> Time \<Rightarrow> error option \<Rightarrow> applicant_input \<times> error option
     \<Rightarrow> world \<Rightarrow> world" where
  "CreateApplicant_controller E service uuid now1 now2 raw_err bound w =
     (case raw_err of
        Some err \<Rightarrow> JSON 400 (H [(''error'', ''Could not read request body'')]) w
      | None \<Rightarrow>
     (case bound of
        (_, Some err) \<Rightarrow> JSON 400 (H [(''error'', message err)]) w
      | (input, None) \<Rightarrow>
     (case GenerateDataKey E of
        (_, _, Some err) \<Rightarrow> JSON 500 (H [(''error'', ''Could not create applicant'')]) w
      | (plaintextKey, encryptedKey, None) \<Rightarrow>
     (case EncryptField E (in_DOB input) plaintextKey of
        (_, Some err) \<Rightarrow> JSON 500 (H [(''error'', ''Could not create applicant'')]) w
      | (encryptedDOB, None) \<Rightarrow>
     (let address = \<lparr>Line1 = Line1 (in_Address input),
                     Line2 = Line2 (in_Address input),
                     City = City (in_Address input),
                     Region = Region (in_Address input),
                     PostalCode = PostalCode (in_Address input),
                     RawAddress.Country = RawAddress.Country (in_Address input)\<rparr>
      in case EncryptAddress E address plaintextKey of
           (_, Some err) \<Rightarrow> JSON 500 (H [(''error'', ''Could not create applicant'')]) w
         | (encryptedAddress, None) \<Rightarrow>
     (let encryptedData = \<lparr>DOB = encryptedDOB, Address = encryptedAddress,
                           EncryptedKey = encryptedKey\<rparr>;
          applicant = createApplicantObject uuid now1 now2 (in_FirstName input)
                        (in_MiddleName input) (in_LastName input) (in_Email input)
                        (in_Phone input) (in_Level input) encryptedData
      in case service applicant w of
           (w', _, Some err) \<Rightarrow> JSON 500 (H [(''error'', ''Could not create applicant'')]) w'
         | (w', applicant', None) \<Rightarrow>
             JSON 200 (H [(''message'', ''Applicant created successfully''),
                          (''applicant_id'', Applicant.ApplicantID applicant')]) w'))))))"

section \<open>The core library and the store, modelled from the specification\<close>

text \<open>
  Modelled from the spec: \<^verbatim>\<open>common.GenerateCacheKey\<close>, \<^verbatim>\<open>common.CacheWrapper\<close>
  and \<^verbatim>\<open>common.InvalidateCache\<close> live in \<^verbatim>\<open>verus_backend_core\<close>, and the
  collection is a MongoDB collection; none of them is among the repository's files. The
  definitions below follow the specification's words: the CacheKeyCodec of section 4.4
  (a digest of a canonical, order-independent serialization of the filter), the
  ConsistencyGate of section 4.5 (cache-first read that fills the cache on a miss; write
  to the store first, then drop the key) and the AuthoritativeStore of section 6
  (filter-based \<^verbatim>\<open>FindOne\<close> and \<^verbatim>\<open>UpdateOne\<close> with \<^verbatim>\<open>$set\<close> and array-positional
  semantics).
\<close>

subsection \<open>The store\<close>

definition clause_holds :: "Applicant \<Rightarrow> string \<times> bval \<Rightarrow> bool" where
  "clause_holds r c =
     (case c of (k, v) \<Rightarrow>
        if k = ''applicant_id'' then v = BStr (Applicant.ApplicantID r)
        else if k = ''client_id'' then v = BStr (ClientID r)
        else if k = ''deleted'' then v = BBool (Applicant.Deleted r)
        else if k = ''documents.document_id''
          then list_ex (\<lambda>d. v = BStr (DocumentID d)) (Documents r)
        else False)"

definition spec_matches :: "bsonM \<Rightarrow> Applicant \<Rightarrow> bool" where
  "spec_matches filter' r = list_all (clause_holds r) filter'"

text \<open>The array element the positional operator \<^verbatim>\<open>$\<close> stands for: the first one
  that satisfies the filter's condition on the array.\<close>

definition positional :: "bsonM \<Rightarrow> Document \<Rightarrow> bool" where
  "positional filter' d =
     list_ex (\<lambda>(k, v). k = ''documents.document_id'' \<and> v = BStr (DocumentID d)) filter'"

fun update_first :: "('a \<Rightarrow> bool) \<Rightarrow> ('a \<Rightarrow> 'a) \<Rightarrow> 'a list \<Rightarrow> 'a list" where
  "update_first P f [] = []"
| "update_first P f (x # xs) = (if P x then f x # xs else x # update_first P f xs)"

text \<open>
  The values a field accepts. A value of another BSON type cannot be held by the Go
  struct, so the model refuses the update (\<open>None\<close>) instead of storing it.
\<close>

definition as_str :: "bval \<Rightarrow> string option" where
  "as_str v = (case v of BStr x \<Rightarrow> Some x | _ \<Rightarrow> None)"

definition as_bool :: "bval \<Rightarrow> bool option" where
  "as_bool v = (case v of BBool b \<Rightarrow> Some b | _ \<Rightarrow> None)"

definition as_int :: "bval \<Rightarrow> int option" where
  "as_int v = (case v of BInt n \<Rightarrow> Some n | _ \<Rightarrow> None)"

definition as_time :: "bval \<Rightarrow> Time option" where
  "as_time v = (case v of BTime t \<Rightarrow> Some t | _ \<Rightarrow> None)"

definition as_time_ptr :: "bval \<Rightarrow> Time option option" where
  "as_time_ptr v = (case v of BTime t \<Rightarrow> Some (Some t) | BNull \<Rightarrow> Some None | _ \<Rightarrow> None)"

definition as_str_ptr :: "bval \<Rightarrow> string option option" where
  "as_str_ptr v = (case v of BStr x \<Rightarrow> Some (Some x) | BNull \<Rightarrow> Some None | _ \<Rightarrow> None)"

definition as_doc :: "bval \<Rightarrow> Document option" where
  "as_doc v = (case v of BDoc d \<Rightarrow> Some d | _ \<Rightarrow> None)"

definition as_docs :: "bval \<Rightarrow> Document list option" where
  "as_docs v = (case v of BArr vs \<Rightarrow> those (map as_doc vs) | _ \<Rightarrow> None)"

text \<open>
  \<^verbatim>\<open>$set\<close> of one field of a document of the array. The BSON names are the
  snake-case names of the struct fields, as the repository's filters, updates and tests
  show them for \<^verbatim>\<open>document_id\<close>, \<^verbatim>\<open>applicant_id\<close>, \<^verbatim>\<open>document_type\<close>,
  \<^verbatim>\<open>status\<close>, \<^verbatim>\<open>updated_at\<close> and \<^verbatim>\<open>deleted\<close>. A name outside the struct adds a
  field that decoding into the struct does not see.
\<close>

definition set_document_field :: "string \<Rightarrow> bval \<Rightarrow> Document \<Rightarrow> Document option" where
  "set_document_field k v d =
     (if k = ''document_id'' then map_option (\<lambda>x. d\<lparr>DocumentID := x\<rparr>) (as_str v)
      else if k = ''applicant_id''
        then map_option (\<lambda>x. d\<lparr>Document.ApplicantID := x\<rparr>) (as_str v)
      else if k = ''document_type'' then map_option (\<lambda>x. d\<lparr>DocumentType := x\<rparr>) (as_int v)
      else if k = ''country'' then map_option (\<lambda>x. d\<lparr>Document.Country := x\<rparr>) (as_str v)
      else if k = ''file_url'' then map_option (\<lambda>x. d\<lparr>FileURL := x\<rparr>) (as_str v)
      else if k = ''file_size'' then map_option (\<lambda>x. d\<lparr>FileSize := x\<rparr>) (as_int v)
      else if k = ''status'' then map_option (\<lambda>x. d\<lparr>Status := x\<rparr>) (as_int v)
      else if k = ''created_at''
        then map_option (\<lambda>x. d\<lparr>Document.CreatedAt := x\<rparr>) (as_time v)
      else if k = ''updated_at''
        then map_option (\<lambda>x. d\<lparr>Document.UpdatedAt := x\<rparr>) (as_time v)
      else if k = ''deleted'' then map_option (\<lambda>x. d\<lparr>Document.Deleted := x\<rparr>) (as_bool v)
      else if k = ''deleted_at''
        then map_option (\<lambda>x. d\<lparr>Document.DeletedAt := x\<rparr>) (as_time_ptr v)
      else if k = ''deleted_by''
        then map_option (\<lambda>x. d\<lparr>Document.DeletedBy := x\<rparr>) (as_str_ptr v)
      else Some d)"

text \<open>
  \<^verbatim>\<open>$set\<close> of one field of the matched record. \<^verbatim>\<open>documents.$\<close> replaces the
  positional element, \<^verbatim>\<open>documents.$.f\<close> sets its field \<open>f\<close> (both fail when the
  filter selects no element), \<^verbatim>\<open>documents\<close> replaces the array. Other paths into
  \<^verbatim>\<open>documents\<close> and \<^verbatim>\<open>encrypted_data\<close> are not represented and are refused. A name
  outside the struct leaves what decoding sees unchanged.
\<close>

definition set_field :: "bsonM \<Rightarrow> string \<times> bval \<Rightarrow> Applicant \<Rightarrow> Applicant option" where
  "set_field filter' kv r =
     (case kv of (k, v) \<Rightarrow>
        if k = ''documents.$'' then
          (case find (positional filter') (Documents r) of
             None \<Rightarrow> None
           | Some x \<Rightarrow>
               map_option
                 (\<lambda>y. r\<lparr>Documents := update_first (positional filter') (\<lambda>_. y) (Documents r)\<rparr>)
                 (as_doc v))
        else if take 12 k = ''documents.$.'' then
          (case find (positional filter') (Documents r) of
             None \<Rightarrow> None
           | Some x \<Rightarrow>
               map_option
                 (\<lambda>y. r\<lparr>Documents := update_first (positional filter') (\<lambda>_. y) (Documents r)\<rparr>)
                 (set_document_field (drop 12 k) v x))
        else if k = ''documents'' then map_option (\<lambda>x. r\<lparr>Documents := x\<rparr>) (as_docs v)
        else if takeWhile (\<lambda>c. c \<noteq> CHR ''.'') k = ''documents'' then None
        else if k = ''encrypted_data.dob''
          then map_option (\<lambda>x. r\<lparr>EncryptedData := (EncryptedData r)\<lparr>DOB := x\<rparr>\<rparr>) (as_str v)
        else if k = ''encrypted_data.address''
          then map_option (\<lambda>x. r\<lparr>EncryptedData := (EncryptedData r)\<lparr>Address := x\<rparr>\<rparr>) (as_str v)
        else if k = ''encrypted_data.encrypted_key''
          then map_option (\<lambda>x. r\<lparr>EncryptedData := (EncryptedData r)\<lparr>EncryptedKey := x\<rparr>\<rparr>)
                 (as_str v)
        else if takeWhile (\<lambda>c. c \<noteq> CHR ''.'') k = ''encrypted_data'' then None
        else if k = ''applicant_id''
          then map_option (\<lambda>x. r\<lparr>Applicant.ApplicantID := x\<rparr>) (as_str v)
        else if k = ''first_name'' then map_option (\<lambda>x. r\<lparr>FirstName := x\<rparr>) (as_str v)
        else if k = ''middle_name'' then map_option (\<lambda>x. r\<lparr>MiddleName := x\<rparr>) (as_str v)
        else if k = ''last_name'' then map_option (\<lambda>x. r\<lparr>LastName := x\<rparr>) (as_str v)
        else if k = ''email'' then map_option (\<lambda>x. r\<lparr>Email := x\<rparr>) (as_str v)
        else if k = ''phone'' then map_option (\<lambda>x. r\<lparr>Phone := x\<rparr>) (as_str v)
        else if k = ''client_id'' then map_option (\<lambda>x. r\<lparr>ClientID := x\<rparr>) (as_str v)
        else if k = ''created_at''
          then map_option (\<lambda>x. r\<lparr>Applicant.CreatedAt := x\<rparr>) (as_time v)
        else if k = ''updated_at''
          then map_option (\<lambda>x. r\<lparr>Applicant.UpdatedAt := x\<rparr>) (as_time v)
        else if k = ''deleted'' then map_option (\<lambda>x. r\<lparr>Applicant.Deleted := x\<rparr>) (as_bool v)
        else if k = ''deleted_at''
          then map_option (\<lambda>x. r\<lparr>Applicant.DeletedAt := x\<rparr>) (as_time_ptr v)
        else if k = ''deleted_by''
          then map_option (\<lambda>x. r\<lparr>Applicant.DeletedBy := x\<rparr>) (as_str_ptr v)
        else if k = ''verification_level''
          then map_option (\<lambda>x. r\<lparr>VerificationLevel := x\<rparr>) (as_str v)
        else Some r)"

text \<open>\<^verbatim>\<open>$push\<close> of one value: onto \<^verbatim>\<open>documents\<close>, the only array of the record.\<close>

definition push_field :: "string \<times> bval \<Rightarrow> Applicant \<Rightarrow> Applicant option" where
  "push_field kv r =
     (case kv of (k, v) \<Rightarrow>
        if k = ''documents''
        then map_option (\<lambda>d. r\<lparr>Documents := Documents r @ [d]\<rparr>) (as_doc v)
        else None)"

text \<open>
  The change an update document makes to the matched record, field after field;
  \<open>None\<close> for an update document that is not a single \<^verbatim>\<open>$set\<close> or \<^verbatim>\<open>$push\<close>. The
  change itself fails when one of its fields does.
\<close>

definition spec_update_fun ::
  "bsonM \<Rightarrow> bsonM \<Rightarrow> (Applicant \<Rightarrow> Applicant option) option" where
  "spec_update_fun filter' update =
     (case update of
        [(operator, BMap fs)] \<Rightarrow>
          if operator = ''$set''
          then Some (\<lambda>r. fold (\<lambda>kv acc. Option.bind acc (set_field filter' kv)) fs (Some r))
          else if operator = ''$push''
          then Some (\<lambda>r. fold (\<lambda>kv acc. Option.bind acc (push_field kv)) fs (Some r))
          else None
      | _ \<Rightarrow> None)"

definition ErrNoDocuments :: error where
  "ErrNoDocuments = Error ''mongo: no documents in result''"

definition spec_InsertOne :: "Applicant \<Rightarrow> world \<Rightarrow> world \<times> error option" where
  "spec_InsertOne a w =
     (w\<lparr>store := store w @ [a], store_calls := store_calls w @ [InsertOneCall a]\<rparr>, None)"

definition spec_FindOne :: "bsonM \<Rightarrow> world \<Rightarrow> world \<times> Applicant \<times> error option" where
  "spec_FindOne filter' w =
     (let w' = w\<lparr>store_calls := store_calls w @ [FindOneCall filter']\<rparr>
      in case find (spec_matches filter') (store w) of
           None \<Rightarrow> (w', zero_Applicant, Some ErrNoDocuments)
         | Some r \<Rightarrow> (w', r, None))"

text \<open>
  \<^verbatim>\<open>UpdateOne\<close> changes the first record that matches the filter; matching no record
  is not an error.
\<close>

definition spec_UpdateOne :: "bsonM \<Rightarrow> bsonM \<Rightarrow> world \<Rightarrow> world \<times> error option" where
  "spec_UpdateOne filter' update w =
     (let w' = w\<lparr>store_calls := store_calls w @ [UpdateOneCall filter' update]\<rparr>
      in case spec_update_fun filter' update of
           None \<Rightarrow> (w', Some (Error ''unsupported update document''))
         | Some f \<Rightarrow>
             (case find (spec_matches filter') (store w) of
                None \<Rightarrow> (w', None)
              | Some r \<Rightarrow>
                  (case f r of
                     None \<Rightarrow> (w', Some (Error ''the update cannot be applied''))
                   | Some r' \<Rightarrow>
                       (w'\<lparr>store := update_first (spec_matches filter') (\<lambda>_. r') (store w)\<rparr>,
                        None))))"

subsection \<open>The cache key codec\<close>

text \<open>
  The canonical form of a filter lists its fields in the order of their names. The
  digest (the hash of the serialization) is a parameter; it answers \<open>None\<close> for a
  filter that cannot be serialized.
\<close>

definition canonical :: "bsonM \<Rightarrow> bsonM" where
  "canonical filter' = sort_key fst filter'"

definition KeyDerivationError :: error where
  "KeyDerivationError = Error ''KeyDerivationError''"

definition spec_GenerateCacheKey ::
  "(string \<times> bsonM \<Rightarrow> string option) \<Rightarrow> string \<Rightarrow> bsonM \<Rightarrow> string \<times> error option" where
  "spec_GenerateCacheKey digest collectionName filter' =
     (case digest (collectionName, canonical filter') of
        None \<Rightarrow> ([], Some KeyDerivationError)
      | Some key \<Rightarrow> (key, None))"

subsection \<open>The consistency gate\<close>

definition spec_doc_matches :: "bsonM \<Rightarrow> Document \<Rightarrow> bool" where
  "spec_doc_matches cond d =
     list_all (\<lambda>(k, v). k = ''document_id'' \<and> v = BStr (DocumentID d)) cond"

definition spec_project :: "bsonM \<Rightarrow> Applicant \<Rightarrow> Document list" where
  "spec_project projection r =
     (case projection of
        [(fld, BMap [(operator, BMap cond)])] \<Rightarrow>
          if fld = ''documents'' \<and> operator = ''$elemMatch''
          then (case find (spec_doc_matches cond) (Documents r) of
                  None \<Rightarrow> []
                | Some d \<Rightarrow> [d])
          else Documents r
      | _ \<Rightarrow> Documents r)"

definition spec_CacheWrapper ::
  "string \<Rightarrow> string \<Rightarrow> bsonM \<Rightarrow> bsonM \<Rightarrow> world \<Rightarrow> world \<times> Document list \<times> error option" where
  "spec_CacheWrapper collectionName cacheKey filter' projection w =
     (case cache w cacheKey of
        Some docs \<Rightarrow> (w, docs, None)
      | None \<Rightarrow>
          (case spec_FindOne filter' w of
             (w', _, Some err) \<Rightarrow> (w', [], Some err)
           | (w', r, None) \<Rightarrow>
               (let docs = spec_project projection r
                in (w'\<lparr>cache := (cache w')(cacheKey \<mapsto> docs)\<rparr>, docs, None))))"

definition spec_InvalidateCache ::
  "string \<Rightarrow> string \<Rightarrow> bsonM \<Rightarrow> bsonM \<Rightarrow> world \<Rightarrow> world \<times> error option" where
  "spec_InvalidateCache collectionName cacheKey filter' update w =
     (case spec_UpdateOne filter' update w of
        (w1, Some err) \<Rightarrow> (w1, Some err)
      | (w1, None) \<Rightarrow> (w1\<lparr>cache := (cache w1)(cacheKey := None)\<rparr>, None))"

text \<open>The collaborators of \<open>E\<close> with the modelled core and store in place.\<close>

definition spec_env :: "(string \<times> bsonM \<Rightarrow> string option) \<Rightarrow> env \<Rightarrow> env" where
  "spec_env digest E =
     E\<lparr>GenerateCacheKey := spec_GenerateCacheKey digest,
       CacheWrapper := spec_CacheWrapper,
       InvalidateCache := spec_InvalidateCache,
       GetCollection := (\<lambda>_. True),
       InsertOne := spec_InsertOne,
       UpdateOne := spec_UpdateOne,
       FindOne := spec_FindOne\<rparr>"

section \<open>Concrete collaborators and worlds for the examples\<close>

text \<open>
  A digest without hashing: the collection name followed by the fields of the canonical
  filter. It serializes strings and booleans and refuses every other value.
\<close>

fun render :: "bval \<Rightarrow> string option" where
  "render (BStr x) = Some x"
| "render (BBool b) = Some (if b then ''true'' else ''false'')"
| "render (BInt n) = None"
| "render (BTime t) = None"
| "render (BDoc d) = None"
| "render (BMap m) = None"
| "render BNull = None"
| "render (BArr vs) = None"

fun example_serialize :: "bsonM \<Rightarrow> string option" where
  "example_serialize [] = Some []"
| "example_serialize ((k, v) # m) =
     (case (render v, example_serialize m) of
        (Some x, Some y) \<Rightarrow> Some (k @ ''='' @ x @ '';'' @ y)
      | _ \<Rightarrow> None)"

definition example_digest :: "string \<times> bsonM \<Rightarrow> string option" where
  "example_digest cf =
     (case example_serialize (snd cf) of
        None \<Rightarrow> None
      | Some x \<Rightarrow> Some (fst cf @ '':'' @ x))"

definition example_env :: env where
  "example_env =
     \<lparr>GenerateCacheKey = spec_GenerateCacheKey example_digest,
      CacheWrapper = spec_CacheWrapper,
      InvalidateCache = spec_InvalidateCache,
      GetCollection = (\<lambda>_. True),
      InsertOne = spec_InsertOne,
      UpdateOne = spec_UpdateOne,
      FindOne = spec_FindOne,
      GetClientIDFromContext = (''client-1'', None),
      ParseDocumentType =
        (\<lambda>x. if x = ''passport'' then (1, None)
             else (0, Some (Error ''invalid document type''))),
      ParseDocumentStatus =
        (\<lambda>x. if x = ''uploaded'' then (0, None)
             else if x = ''verified'' then (1, None)
             else (0, Some (Error ''invalid document status''))),
      DocumentUploaded = 0,
      ExtensionsByType = (\<lambda>_. ([], None)),
      UploadFile = (\<lambda>fileName mimeType. (''https://bucket/'' @ fileName, None)),
      GenerateDataKey = (''key'', ''wrapped-key'', None),
      EncryptField = (\<lambda>v k. (rev v, None)),
      EncryptAddress = (\<lambda>a k. (rev (Line1 a), None))\<rparr>"

text \<open>The same collaborators with a KMS that is down, and with a filter that cannot be
  serialized.\<close>

definition kms_down_env :: env where
  "kms_down_env = example_env\<lparr>GenerateDataKey := ([], [], Some (Error ''kms unavailable''))\<rparr>"

definition no_key_env :: env where
  "no_key_env = spec_env (\<lambda>_. None) example_env"

definition example_doc1 :: Document where
  "example_doc1 =
     \<lparr>DocumentID = ''d1'', Document.ApplicantID = ''a1'', DocumentType = 1,
      Document.Country = ''US'', FileURL = ''https://bucket/d1.pdf'', FileSize = 0,
      Status = 0, Document.CreatedAt = 5, Document.UpdatedAt = 5, Document.Deleted = False,
      Document.DeletedAt = None, Document.DeletedBy = None\<rparr>"

definition example_doc2 :: Document where
  "example_doc2 =
     \<lparr>DocumentID = ''d2'', Document.ApplicantID = ''a1'', DocumentType = 1,
      Document.Country = ''US'', FileURL = ''https://bucket/d2.pdf'', FileSize = 0,
      Status = 0, Document.CreatedAt = 6, Document.UpdatedAt = 6, Document.Deleted = False,
      Document.DeletedAt = None, Document.DeletedBy = None\<rparr>"

definition example_applicant :: Applicant where
  "example_applicant =
     \<lparr>Applicant.ApplicantID = ''a1'', FirstName = ''Ada'', MiddleName = ''M'',
      LastName = ''Lovelace'', Email = ''ada@example.com'', Phone = ''555'',
      ClientID = ''client-1'',
      EncryptedData = \<lparr>DOB = ''x'', Address = ''y'', EncryptedKey = ''z''\<rparr>,
      Applicant.CreatedAt = 1, Applicant.UpdatedAt = 1, Applicant.Deleted = False,
      Applicant.DeletedAt = None, Applicant.DeletedBy = None,
      Documents = [example_doc1, example_doc2], VerificationLevel = ''basic''\<rparr>"

definition example_world :: world where
  "example_world =
     \<lparr>store = [example_applicant], store_calls = [], cache = Map.empty, responses = []\<rparr>"

definition example_upload :: "string \<Rightarrow> upload_request" where
  "example_upload documentType =
     \<lparr>multipart_err = None,
      form_file = (''application/pdf'', None),
      form_values = (\<lambda>k. if k = ''applicant_id'' then ''a1''
                         else if k = ''document_type'' then documentType
                         else if k = ''country'' then ''US'' else [])\<rparr>"

definition example_input :: applicant_input where
  "example_input =
     \<lparr>in_FirstName = ''Ada'', in_MiddleName = ''M'', in_LastName = ''Lovelace'',
      in_Email = ''ada@example.com'', in_Phone = ''555'',
      in_Address = \<lparr>Line1 = ''1 Main St'', Line2 = [], City = ''London'', Region = [],
                     PostalCode = ''N1'', RawAddress.Country = ''UK''\<rparr>,
      in_DOB = ''1990-01-01'', in_Level = ''basic''\<rparr>"

section \<open>Vocabulary of the statements\<close>

text \<open>
  The filter, the update document and the projection that the document service builds,
  under names of their own, and what they mean in the modelled store: \<open>touch\<close> is the
  change the status update makes to the matched record, \<open>first_doc\<close> the array the
  projection keeps, \<open>written\<close> the world after the write and the invalidation.
\<close>

definition doc_filter :: "string \<Rightarrow> string \<Rightarrow> bsonM" where
  "doc_filter applicantID docID =
     [(''applicant_id'', BStr applicantID), (''deleted'', BBool False),
      (''documents.document_id'', BStr docID)]"

definition status_update :: "DocumentStatus \<Rightarrow> Time \<Rightarrow> bsonM" where
  "status_update status now =
     [(''$set'', BMap [(''documents.$.status'', BInt status),
                      (''documents.$.updated_at'', BTime now)])]"

definition elem_projection :: "string \<Rightarrow> bsonM" where
  "elem_projection docID =
     [(''documents'', BMap [(''$elemMatch'', BMap [(''document_id'', BStr docID)])])]"

definition stamp :: "DocumentStatus \<Rightarrow> Time \<Rightarrow> Document \<Rightarrow> Document" where
  "stamp status now d = d\<lparr>Status := status, Document.UpdatedAt := now\<rparr>"

definition touch :: "string \<Rightarrow> DocumentStatus \<Rightarrow> Time \<Rightarrow> Applicant \<Rightarrow> Applicant" where
  "touch docID status now r =
     r\<lparr>Documents := update_first (\<lambda>x. DocumentID x = docID) (stamp status now)
                       (Documents r)\<rparr>"

definition first_doc :: "string \<Rightarrow> Applicant \<Rightarrow> Document list" where
  "first_doc docID r =
     (case find (\<lambda>x. DocumentID x = docID) (Documents r) of None \<Rightarrow> [] | Some x \<Rightarrow> [x])"

definition first_or_zero :: "Document list \<Rightarrow> Document" where
  "first_or_zero docs = (case docs of [] \<Rightarrow> zero_Document | x # _ \<Rightarrow> x)"

definition written ::
  "string \<Rightarrow> string \<Rightarrow> string \<Rightarrow> DocumentStatus \<Rightarrow> Time \<Rightarrow> world \<Rightarrow> world" where
  "written k a d s t w =
     w\<lparr>store_calls := store_calls w @ [UpdateOneCall (doc_filter a d) (status_update s t)],
       store := update_first (spec_matches (doc_filter a d)) (touch d s t) (store w),
       cache := (cache w)(k := None)\<rparr>"

text \<open>
  A run of the document service: reads and status updates, one after the other, each
  update with its clock reading.
\<close>

datatype doc_op = GetOp string string | UpdateOp Time string string DocumentStatus

fun run_op :: "env \<Rightarrow> doc_op \<Rightarrow> world \<Rightarrow> world" where
  "run_op E (GetOp a d) w = fst (GetDocument E a d w)"
| "run_op E (UpdateOp t a d s) w = fst (UpdateDocument E t a d s w)"

definition run :: "env \<Rightarrow> doc_op list \<Rightarrow> world \<Rightarrow> world" where
  "run E ops w = fold (run_op E) ops w"

text \<open>
  \<open>own_key\<close>: the document \<open>(a', d')\<close> does not share the cache key of \<open>(a, d)\<close>
  unless it is that document. An operation is \<open>admissible\<close> after a write to
  \<open>(a, d)\<close> at \<open>t\<close> when its key is its own and, for an update, its clock reading is
  not before \<open>t\<close>.
\<close>

definition own_key ::
  "(string \<times> bsonM \<Rightarrow> string option) \<Rightarrow> string \<Rightarrow> string \<Rightarrow> string \<Rightarrow> string \<Rightarrow> bool" where
  "own_key digest a d a' d' =
     (digest (CollectionApplicants, canonical (doc_filter a' d'))
        \<noteq> digest (CollectionApplicants, canonical (doc_filter a d))
      \<or> (a' = a \<and> d' = d))"

fun admissible ::
  "(string \<times> bsonM \<Rightarrow> string option) \<Rightarrow> Time \<Rightarrow> string \<Rightarrow> string \<Rightarrow> doc_op \<Rightarrow> bool" where
  "admissible digest t a d (GetOp a' d') = own_key digest a d a' d'"
| "admissible digest t a d (UpdateOp t' a' d' s') = (t \<le> t' \<and> own_key digest a d a' d')"

text \<open>
  The invariant of such a run: the store's record for the filter of \<open>(a, d)\<close> holds
  the document with \<^verbatim>\<open>UpdatedAt\<close> at or after \<open>t\<close>, and so does the cache entry of
  its key, if there is one.
\<close>

definition store_fresh :: "Time \<Rightarrow> string \<Rightarrow> string \<Rightarrow> Applicant list \<Rightarrow> bool" where
  "store_fresh t a d rs =
     (\<exists>r x. find (spec_matches (doc_filter a d)) rs = Some r \<and> first_doc d r = [x]
            \<and> t \<le> Document.UpdatedAt x)"

definition cache_fresh :: "Time \<Rightarrow> string \<Rightarrow> Document list option \<Rightarrow> bool" where
  "cache_fresh t d entry =
     (case entry of
        None \<Rightarrow> True
      | Some docs \<Rightarrow>
          (case docs of
             [] \<Rightarrow> False
           | x # _ \<Rightarrow> DocumentID x = d \<and> t \<le> Document.UpdatedAt x))"

definition fresh :: "string \<Rightarrow> Time \<Rightarrow> string \<Rightarrow> string \<Rightarrow> world \<Rightarrow> bool" where
  "fresh k t a d w = (store_fresh t a d (store w) \<and> cache_fresh t d (cache w k))"

text \<open>The example world after a first read of document \<^verbatim>\<open>d1\<close>, and a run.\<close>

definition example_cached_world :: world where
  "example_cached_world = fst (GetDocument example_env ''a1'' ''d1'' example_world)"

definition example_ops :: "doc_op list" where
  "example_ops = [GetOp ''a1'' ''d2'', UpdateOp 12 ''a1'' ''d2'' 1, GetOp ''a1'' ''d1'',
                  UpdateOp 11 ''a1'' ''d1'' 0, GetOp ''a2'' ''d1'']"

section \<open>Basic facts\<close>

lemma JSON_simps:
  "store (JSON code b w) = store w"
  "store_calls (JSON code b w) = store_calls w"
  "cache (JSON code b w) = cache w"
  "responses (JSON code b w) = responses w @ [(code, b)]"
  by (simp_all add: JSON_def)

section \<open>Record creation and the key provider\<close>

text \<open>
  C3. If \<^verbatim>\<open>GenerateDataKey\<close> returns an error, the controller \<^verbatim>\<open>CreateApplicant\<close>
  fails: whatever the service, the request and the world are, it leaves the store, the
  journal of store calls and the cache as they were and answers with one error response
  (status 400 or above). When the body was read and bound, so that the key provider was
  really asked, the answer is 500 \<^verbatim>\<open>Could not create applicant\<close> and nothing else
  happened: the service, and with it \<^verbatim>\<open>InsertOne\<close>, is never reached.
\<close>

theorem CreateApplicant_key_error_no_insert:
  assumes "snd (snd (GenerateDataKey E)) = Some err"
  shows "store (CreateApplicant_controller E service uuid now1 now2 raw_err bound w) = store w
       \<and> store_calls (CreateApplicant_controller E service uuid now1 now2 raw_err bound w)
           = store_calls w
       \<and> cache (CreateApplicant_controller E service uuid now1 now2 raw_err bound w) = cache w
       \<and> (\<exists>code msg. 400 \<le> code \<and>
             responses (CreateApplicant_controller E service uuid now1 now2 raw_err bound w)
               = responses w @ [(code, H [(''error'', msg)])])
       \<and> (raw_err = None \<and> snd bound = None \<longrightarrow>
             CreateApplicant_controller E service uuid now1 now2 raw_err bound w
               = JSON 500 (H [(''error'', ''Could not create applicant'')]) w)"
  using assms
  by (cases "GenerateDataKey E"; cases bound; cases raw_err)
     (auto simp: CreateApplicant_controller_def JSON_simps split: option.splits prod.splits)

theorem CreateApplicant_key_error_no_insert_witness:
  "snd (snd (GenerateDataKey kms_down_env)) = Some (Error ''kms unavailable'')
   \<and> store_calls (CreateApplicant_controller kms_down_env
        (CreateApplicant kms_down_env CollectionApplicants) ''u1'' 100 101 None
        (example_input, None) example_world) = store_calls example_world
   \<and> store (CreateApplicant_controller kms_down_env
        (CreateApplicant kms_down_env CollectionApplicants) ''u1'' 100 101 None
        (example_input, None) example_world) = store example_world
   \<and> CreateApplicant_controller kms_down_env
        (CreateApplicant kms_down_env CollectionApplicants) ''u1'' 100 101 None
        (example_input, None) example_world
       = JSON 500 (H [(''error'', ''Could not create applicant'')]) example_world"
proof -
  have h: "snd (snd (GenerateDataKey kms_down_env)) = Some (Error ''kms unavailable'')"
    by (simp add: kms_down_env_def)
  from CreateApplicant_key_error_no_insert [OF h,
      of "CreateApplicant kms_down_env CollectionApplicants" "''u1''" 100 101 None
         "(example_input, None)" example_world]
  show ?thesis using h by (simp add: JSON_simps)
qed

text \<open>With a working key provider the same request does reach the store.\<close>

lemma CreateApplicant_example_inserts:
  "length (store (CreateApplicant_controller example_env
      (CreateApplicant example_env CollectionApplicants) ''u1'' 100 101 None
      (example_input, None) example_world)) = 2"
  by code_simp

section \<open>Reads and writes of the document service\<close>

text \<open>
  What \<^verbatim>\<open>GetDocument\<close> does with a read that returns no error and decodes no
  document, whatever \<^verbatim>\<open>common.CacheWrapper\<close> is: it falls through the length check
  and returns the zero \<^verbatim>\<open>Document\<close> with a \<^verbatim>\<open>nil\<close> error. Whether the read can
  answer that way for a document that is not there is the subject of the section on
  missing documents below.
\<close>

lemma GetDocument_empty_read:
  assumes "GenerateCacheKey E CollectionApplicants
             [(''applicant_id'', BStr applicantID), (''deleted'', BBool False),
              (''documents.document_id'', BStr docID)] = (cacheKey, None)"
      and "CacheWrapper E CollectionApplicants cacheKey
             [(''applicant_id'', BStr applicantID), (''deleted'', BBool False),
              (''documents.document_id'', BStr docID)]
             [(''documents'', BMap [(''$elemMatch'', BMap [(''document_id'', BStr docID)])])] w
             = (w', [], None)"
  shows "GetDocument E applicantID docID w = (w', zero_Document, None)"
  using assms by (simp add: GetDocument_def GenerateFilterAndCacheKey_def)

text \<open>
  C6, as the code has it. When the cache key cannot be derived, \<^verbatim>\<open>GetDocument\<close> and
  \<^verbatim>\<open>UpdateDocument\<close> do fail: each answers 500
  \<^verbatim>\<open>Error generating filter and cache key\<close> and returns the zero \<^verbatim>\<open>Document\<close> with
  the derivation error. Neither the cache nor the store is asked: the world changes by
  that response only.
\<close>

theorem key_derivation_error_is_returned:
  assumes "snd (GenerateCacheKey E CollectionApplicants
             [(''applicant_id'', BStr applicantID), (''deleted'', BBool False),
              (''documents.document_id'', BStr docID)]) = Some err"
  shows "GetDocument E applicantID docID w
           = (JSON 500 (H [(''error'', ''Error generating filter and cache key'')]) w,
              zero_Document, Some err)
       \<and> UpdateDocument E now applicantID docID status w
           = (JSON 500 (H [(''error'', ''Error generating filter and cache key'')]) w,
              zero_Document, Some err)"
  using assms
  by (cases "GenerateCacheKey E CollectionApplicants
             [(''applicant_id'', BStr applicantID), (''deleted'', BBool False),
              (''documents.document_id'', BStr docID)]")
     (simp add: GetDocument_def UpdateDocument_def GenerateFilterAndCacheKey_def)

theorem key_derivation_error_is_returned_witness:
  "GetDocument no_key_env ''a1'' ''d1'' example_world
     = (JSON 500 (H [(''error'', ''Error generating filter and cache key'')]) example_world,
        zero_Document, Some KeyDerivationError)
   \<and> UpdateDocument no_key_env 10 ''a1'' ''d1'' 1 example_world
     = (JSON 500 (H [(''error'', ''Error generating filter and cache key'')]) example_world,
        zero_Document, Some KeyDerivationError)"
proof -
  have h: "snd (GenerateCacheKey no_key_env CollectionApplicants
             [(''applicant_id'', BStr ''a1''), (''deleted'', BBool False),
              (''documents.document_id'', BStr ''d1'')]) = Some KeyDerivationError"
    by (simp add: no_key_env_def spec_env_def spec_GenerateCacheKey_def)
  from key_derivation_error_is_returned [OF h] show ?thesis .
qed

text \<open>
  The claim of C6 as stated fails: with a filter that cannot be serialized, a read of a
  document that the store holds returns an error and never asks the store.
\<close>

theorem key_derivation_error_no_bypass:
  "snd (GenerateCacheKey no_key_env CollectionApplicants
          [(''applicant_id'', BStr ''a1''), (''deleted'', BBool False),
           (''documents.document_id'', BStr ''d1'')]) = Some KeyDerivationError
   \<and> snd (snd (GetDocument no_key_env ''a1'' ''d1'' example_world)) = Some KeyDerivationError
   \<and> fst (snd (GetDocument no_key_env ''a1'' ''d1'' example_world)) = zero_Document
   \<and> store_calls (fst (GetDocument no_key_env ''a1'' ''d1'' example_world)) = []
   \<and> snd (snd (UpdateDocument no_key_env 10 ''a1'' ''d1'' 1 example_world))
       = Some KeyDerivationError
   \<and> store_calls (fst (UpdateDocument no_key_env 10 ''a1'' ''d1'' 1 example_world)) = []
   \<and> fst (snd (GetDocument example_env ''a1'' ''d1'' example_world)) = example_doc1"
  by code_simp

section \<open>Lists, filters and updates in the modelled store\<close>

lemma update_first_twice:
  "(\<And>x. P (f x) = P x) \<Longrightarrow>
   update_first P g (update_first P f xs) = update_first P (\<lambda>x. g (f x)) xs"
  by (induction xs) auto

lemma map_update_first:
  "(\<And>x. g (f x) = g x) \<Longrightarrow> map g (update_first P f xs) = map g xs"
  by (induction xs) auto

lemma update_first_nth:
  "update_first P f xs = xs \<or>
   (\<exists>i. i < length xs \<and> P (xs ! i) \<and> (\<forall>k<i. \<not> P (xs ! k))
        \<and> update_first P f xs = xs[i := f (xs ! i)])"
proof (induction xs)
  case Nil
  then show ?case by simp
next
  case (Cons x xs)
  show ?case
  proof (cases "P x")
    case True
    then have "update_first P f (x # xs) = (x # xs)[0 := f ((x # xs) ! 0)]" by simp
    with True show ?thesis
      by (metis length_greater_0_conv list.discI not_less_zero nth_Cons_0)
  next
    case False
    from Cons.IH show ?thesis
    proof
      assume "update_first P f xs = xs"
      with False show ?thesis by simp
    next
      assume "\<exists>i. i < length xs \<and> P (xs ! i) \<and> (\<forall>k<i. \<not> P (xs ! k))
                \<and> update_first P f xs = xs[i := f (xs ! i)]"
      then obtain i where i: "i < length xs" "P (xs ! i)" "\<forall>k<i. \<not> P (xs ! k)"
        "update_first P f xs = xs[i := f (xs ! i)]" by blast
      have "\<forall>k<Suc i. \<not> P ((x # xs) ! k)"
        using False i(3) by (auto simp: nth_Cons split: nat.splits)
      with i False have "Suc i < length (x # xs) \<and> P ((x # xs) ! Suc i)
          \<and> (\<forall>k<Suc i. \<not> P ((x # xs) ! k))
          \<and> update_first P f (x # xs) = (x # xs)[Suc i := f ((x # xs) ! Suc i)]"
        by simp
      then show ?thesis by blast
    qed
  qed
qed

lemma find_update_first_same:
  "(\<And>x. P (f x) = P x) \<Longrightarrow> find P (update_first P f xs) = map_option f (find P xs)"
  by (induction xs) auto

lemma find_update_first_other:
  "(\<And>x. P (f x) = P x) \<Longrightarrow>
   find P (update_first Q f xs) = None \<and> find P xs = None \<or>
   (\<exists>x. find P xs = Some x \<and>
        (find P (update_first Q f xs) = Some x
         \<or> (Q x \<and> find P (update_first Q f xs) = Some (f x))))"
  by (induction xs) auto

lemma find_first_exists:
  "y \<in> set xs \<Longrightarrow> P y \<Longrightarrow> \<exists>x. find P xs = Some x \<and> P x \<and> x \<in> set xs"
  by (induction xs) auto

lemma find_SomeD: "find P xs = Some x \<Longrightarrow> P x \<and> x \<in> set xs"
  by (induction xs) (auto split: if_splits)

lemma update_first_at:
  "find P xs = Some x \<Longrightarrow>
   \<exists>i. i < length xs \<and> xs ! i = x \<and> (\<forall>k<i. \<not> P (xs ! k))
       \<and> update_first P f xs = xs[i := f x]"
proof (induction xs)
  case Nil
  then show ?case by simp
next
  case (Cons y ys)
  show ?case
  proof (cases "P y")
    case True
    with Cons.prems have "y = x" by simp
    with True have "0 < length (y # ys) \<and> (y # ys) ! 0 = x \<and> (\<forall>k<0. \<not> P ((y # ys) ! k))
        \<and> update_first P f (y # ys) = (y # ys)[0 := f x]" by simp
    then show ?thesis by blast
  next
    case False
    with Cons.prems have "find P ys = Some x" by simp
    from Cons.IH [OF this] obtain i where i: "i < length ys" "ys ! i = x"
      "\<forall>k<i. \<not> P (ys ! k)" "update_first P f ys = ys[i := f x]" by blast
    have "\<forall>k<Suc i. \<not> P ((y # ys) ! k)"
      using False i(3) by (auto simp: nth_Cons split: nat.splits)
    with i False have "Suc i < length (y # ys) \<and> (y # ys) ! Suc i = x
        \<and> (\<forall>k<Suc i. \<not> P ((y # ys) ! k))
        \<and> update_first P f (y # ys) = (y # ys)[Suc i := f x]" by simp
    then show ?thesis by blast
  qed
qed

lemma find_NoneD: "find P xs = None \<Longrightarrow> \<forall>x\<in>set xs. \<not> P x"
  by (induction xs) (auto split: if_splits)


lemma matches_doc_filter:
  "spec_matches (doc_filter a d) r
     = (Applicant.ApplicantID r = a \<and> \<not> Applicant.Deleted r
        \<and> d \<in> set (map DocumentID (Documents r)))"
  by (auto simp: spec_matches_def doc_filter_def clause_holds_def list_ex_iff)

lemma matches_plain:
  "spec_matches (doc_filter a d) r
     = (Applicant.ApplicantID r = a \<and> \<not> Applicant.Deleted r
        \<and> d \<in> DocumentID ` set (Documents r))"
  by (simp add: matches_doc_filter)

lemma positional_doc_filter: "positional (doc_filter a d) = (\<lambda>x. DocumentID x = d)"
  by (auto simp: positional_def doc_filter_def fun_eq_iff)

lemma stamp_id [simp]: "DocumentID (stamp s t x) = DocumentID x"
  by (simp add: stamp_def)

lemma stamp_P: "(DocumentID (stamp s t x) = d) = (DocumentID x = d)"
  by (simp add: stamp_def)

lemma doc_matches_elem:
  "spec_doc_matches [(''document_id'', BStr d)] = (\<lambda>x. DocumentID x = d)"
  by (auto simp: spec_doc_matches_def fun_eq_iff)

lemma project_elem: "spec_project (elem_projection d) r = first_doc d r"
  by (simp add: spec_project_def elem_projection_def first_doc_def doc_matches_elem)

lemma touch_fields:
  "Applicant.ApplicantID (touch d s t r) = Applicant.ApplicantID r"
  "Applicant.Deleted (touch d s t r) = Applicant.Deleted r"
  "map DocumentID (Documents (touch d s t r)) = map DocumentID (Documents r)"
  by (simp_all add: touch_def map_update_first)

lemma matches_touch:
  "spec_matches (doc_filter a d) (touch d' s t r) = spec_matches (doc_filter a d) r"
  by (simp only: matches_doc_filter touch_fields)

lemma find_touch:
  "find (\<lambda>y. DocumentID y = d) (Documents (touch d s t r))
     = map_option (stamp s t) (find (\<lambda>y. DocumentID y = d) (Documents r))"
  unfolding touch_def
  by (simp add: find_update_first_same [where P = "\<lambda>y. DocumentID y = d", OF stamp_P])

lemma first_doc_touch: "first_doc d (touch d s t r) = map (stamp s t) (first_doc d r)"
  by (simp add: first_doc_def find_touch split: option.splits)

lemma matches_first_doc:
  assumes "spec_matches (doc_filter a d) r"
  shows "\<exists>x. first_doc d r = [x] \<and> DocumentID x = d \<and> x \<in> set (Documents r)"
proof -
  from assms have "d \<in> set (map DocumentID (Documents r))"
    by (simp only: matches_doc_filter)
  then obtain y where y: "y \<in> set (Documents r)" "DocumentID y = d"
    by auto
  from find_first_exists [of y "Documents r" "\<lambda>x. DocumentID x = d", OF y]
  obtain x where "find (\<lambda>x. DocumentID x = d) (Documents r) = Some x" "DocumentID x = d"
    "x \<in> set (Documents r)" by blast
  then show ?thesis
    by (simp add: first_doc_def)
qed

lemma update_first_const:
  "find P xs = Some x \<Longrightarrow> update_first P (\<lambda>_. f x) xs = update_first P f xs"
  by (induction xs) (auto split: if_splits)

lemma update_first_no_match: "find P xs = None \<Longrightarrow> update_first P f xs = xs"
  by (induction xs) (auto split: if_splits)

lemma set_status_field:
  assumes "find (\<lambda>y. DocumentID y = d) (Documents r) = Some x"
  shows "set_field (doc_filter a d) (''documents.$.status'', BInt s) r
           = Some (r\<lparr>Documents := update_first (\<lambda>y. DocumentID y = d) (\<lambda>y. y\<lparr>Status := s\<rparr>)
                                     (Documents r)\<rparr>)"
proof -
  have "update_first (\<lambda>y. DocumentID y = d) (\<lambda>_. x\<lparr>Status := s\<rparr>) (Documents r)
          = update_first (\<lambda>y. DocumentID y = d) (\<lambda>y. y\<lparr>Status := s\<rparr>) (Documents r)"
    using assms by (rule update_first_const)
  then show ?thesis
    using assms
    by (simp add: set_field_def positional_doc_filter set_document_field_def as_int_def)
qed

lemma set_updated_at_field:
  assumes "find (\<lambda>y. DocumentID y = d) (Documents r) = Some x"
  shows "set_field (doc_filter a d) (''documents.$.updated_at'', BTime t) r
           = Some (r\<lparr>Documents := update_first (\<lambda>y. DocumentID y = d)
                                     (\<lambda>y. y\<lparr>Document.UpdatedAt := t\<rparr>) (Documents r)\<rparr>)"
proof -
  have "update_first (\<lambda>y. DocumentID y = d) (\<lambda>_. x\<lparr>Document.UpdatedAt := t\<rparr>) (Documents r)
          = update_first (\<lambda>y. DocumentID y = d) (\<lambda>y. y\<lparr>Document.UpdatedAt := t\<rparr>)
              (Documents r)"
    using assms by (rule update_first_const)
  then show ?thesis
    using assms
    by (simp add: set_field_def positional_doc_filter set_document_field_def as_time_def)
qed

lemma touch_two_steps:
  "r\<lparr>Documents := update_first (\<lambda>y. DocumentID y = d) (\<lambda>y. y\<lparr>Document.UpdatedAt := t\<rparr>)
       (update_first (\<lambda>y. DocumentID y = d) (\<lambda>y. y\<lparr>Status := s\<rparr>) (Documents r))\<rparr>
   = touch d s t r"
proof -
  have "update_first (\<lambda>y. DocumentID y = d) (\<lambda>y. y\<lparr>Document.UpdatedAt := t\<rparr>)
       (update_first (\<lambda>y. DocumentID y = d) (\<lambda>y. y\<lparr>Status := s\<rparr>) (Documents r))
     = update_first (\<lambda>y. DocumentID y = d) (\<lambda>x. (x\<lparr>Status := s\<rparr>)\<lparr>Document.UpdatedAt := t\<rparr>) (Documents r)"
    by (rule update_first_twice) simp
  also have "(\<lambda>x. (x\<lparr>Status := s\<rparr>)\<lparr>Document.UpdatedAt := t\<rparr>) = stamp s t"
    by (rule ext) (simp add: stamp_def)
  finally show ?thesis unfolding touch_def by (rule arg_cong)
qed

lemma status_update_on_record:
  assumes "spec_matches (doc_filter a d) r"
  shows "Option.bind (set_field (doc_filter a d) (''documents.$.status'', BInt s) r)
           (set_field (doc_filter a d) (''documents.$.updated_at'', BTime t))
         = Some (touch d s t r)"
proof -
  let ?P = "\<lambda>y. DocumentID y = d"
  let ?r1 = "r\<lparr>Documents := update_first ?P (\<lambda>y. y\<lparr>Status := s\<rparr>) (Documents r)\<rparr>"
  from matches_first_doc [OF assms] obtain x
    where x: "find ?P (Documents r) = Some x"
    by (auto simp: first_doc_def split: option.splits)
  have "find ?P (update_first ?P (\<lambda>y. y\<lparr>Status := s\<rparr>) (Documents r))
          = map_option (\<lambda>y. y\<lparr>Status := s\<rparr>) (find ?P (Documents r))"
    by (rule find_update_first_same) simp
  then have x1: "find ?P (Documents ?r1) = Some (x\<lparr>Status := s\<rparr>)"
    using x by simp
  have "Option.bind (set_field (doc_filter a d) (''documents.$.status'', BInt s) r)
           (set_field (doc_filter a d) (''documents.$.updated_at'', BTime t))
        = set_field (doc_filter a d) (''documents.$.updated_at'', BTime t) ?r1"
    by (simp add: set_status_field [OF x])
  also have "\<dots> = Some (?r1\<lparr>Documents := update_first ?P (\<lambda>y. y\<lparr>Document.UpdatedAt := t\<rparr>)
                                    (Documents ?r1)\<rparr>)"
    by (rule set_updated_at_field [OF x1])
  also have "\<dots> = Some (touch d s t r)"
    using touch_two_steps [where r = r and d = d and t = t and s = s] by simp
  finally show ?thesis .
qed

lemma UpdateOne_status:
  "spec_UpdateOne (doc_filter a d) (status_update s t) w
     = (w\<lparr>store_calls := store_calls w @ [UpdateOneCall (doc_filter a d) (status_update s t)],
          store := update_first (spec_matches (doc_filter a d)) (touch d s t) (store w)\<rparr>,
        None)"
proof -
  let ?F = "doc_filter a d"
  have f: "spec_update_fun ?F (status_update s t)
        = Some (\<lambda>r. fold (\<lambda>kv acc. Option.bind acc (set_field ?F kv))
                   [(''documents.$.status'', BInt s), (''documents.$.updated_at'', BTime t)]
                   (Some r))"
    by (simp add: spec_update_fun_def status_update_def)
  show ?thesis
  proof (cases "find (spec_matches ?F) (store w)")
    case None
    then have "update_first (spec_matches ?F) (touch d s t) (store w) = store w"
      by (rule update_first_no_match)
    then show ?thesis
      using None by (simp add: spec_UpdateOne_def f Let_def)
  next
    case (Some r)
    have m: "spec_matches ?F r" using find_SomeD [OF Some] by simp
    have "update_first (spec_matches ?F) (\<lambda>_. touch d s t r) (store w)
            = update_first (spec_matches ?F) (touch d s t) (store w)"
      using Some by (rule update_first_const)
    then show ?thesis
      using Some by (simp add: spec_UpdateOne_def f Let_def status_update_on_record [OF m])
  qed
qed

section \<open>The document service over the modelled core\<close>

lemma key_spec:
  "GenerateFilterAndCacheKey (spec_env digest E) a d c =
     (case digest (c, canonical (doc_filter a d)) of
        None \<Rightarrow> ([], [], Some KeyDerivationError)
      | Some k \<Rightarrow> (doc_filter a d, k, None))"
  by (simp add: GenerateFilterAndCacheKey_def spec_env_def spec_GenerateCacheKey_def
        doc_filter_def split: option.splits)

lemma CacheWrapper_spec:
  "spec_CacheWrapper c k (doc_filter a d) (elem_projection d) w =
     (case cache w k of
        Some docs \<Rightarrow> (w, docs, None)
      | None \<Rightarrow>
          (case find (spec_matches (doc_filter a d)) (store w) of
             None \<Rightarrow> (w\<lparr>store_calls := store_calls w @ [FindOneCall (doc_filter a d)]\<rparr>,
                       [], Some ErrNoDocuments)
           | Some r \<Rightarrow>
               (w\<lparr>store_calls := store_calls w @ [FindOneCall (doc_filter a d)],
                  cache := (cache w)(k \<mapsto> first_doc d r)\<rparr>, first_doc d r, None)))"
  by (simp add: spec_CacheWrapper_def spec_FindOne_def project_elem Let_def
        split: option.splits)

lemma GetDocument_spec:
  "GetDocument (spec_env digest E) a d w =
     (case digest (CollectionApplicants, canonical (doc_filter a d)) of
        None \<Rightarrow> (JSON 500 (H [(''error'', ''Error generating filter and cache key'')]) w,
                  zero_Document, Some KeyDerivationError)
      | Some k \<Rightarrow>
          (case cache w k of
             Some docs \<Rightarrow> (w, first_or_zero docs, None)
           | None \<Rightarrow>
               (case find (spec_matches (doc_filter a d)) (store w) of
                  None \<Rightarrow> (w\<lparr>store_calls := store_calls w @ [FindOneCall (doc_filter a d)]\<rparr>,
                            zero_Document, Some ErrNoDocuments)
                | Some r \<Rightarrow>
                    (w\<lparr>store_calls := store_calls w @ [FindOneCall (doc_filter a d)],
                       cache := (cache w)(k \<mapsto> first_doc d r)\<rparr>,
                     first_or_zero (first_doc d r), None))))"
proof -
  have p: "[(''documents'', BMap [(''$elemMatch'', BMap [(''document_id'', BStr d)])])]
            = elem_projection d"
    by (simp add: elem_projection_def)
  have e: "CacheWrapper (spec_env digest E) = spec_CacheWrapper"
    by (simp add: spec_env_def)
  show ?thesis
    unfolding GetDocument_def key_spec p e Let_def
    by (simp add: CacheWrapper_spec first_or_zero_def split: option.splits list.splits)
qed

lemma InvalidateCache_spec:
  "spec_InvalidateCache c k (doc_filter a d) (status_update s t) w
     = (written k a d s t w, None)"
  by (simp add: spec_InvalidateCache_def UpdateOne_status written_def)

lemma UpdateDocument_spec:
  "UpdateDocument (spec_env digest E) t a d s w =
     (case digest (CollectionApplicants, canonical (doc_filter a d)) of
        None \<Rightarrow> (JSON 500 (H [(''error'', ''Error generating filter and cache key'')]) w,
                  zero_Document, Some KeyDerivationError)
      | Some k \<Rightarrow>
          (case GetDocument (spec_env digest E) a d (written k a d s t w) of
             (w2, x, Some err) \<Rightarrow>
               (JSON 500 (H [(''error'', ''Could not retrieve updated document'')]) w2,
                zero_Document, Some err)
           | (w2, x, None) \<Rightarrow> (w2, x, None)))"
proof -
  have u: "[(''$set'', BMap [(''documents.$.status'', BInt s),
                            (''documents.$.updated_at'', BTime t)])] = status_update s t"
    by (simp add: status_update_def)
  have e: "InvalidateCache (spec_env digest E) = spec_InvalidateCache"
    by (simp add: spec_env_def)
  show ?thesis
    unfolding UpdateDocument_def key_spec u e Let_def
    by (simp add: InvalidateCache_spec split: option.splits)
qed

lemma written_simps:
  "store (written k a d s t w)
     = update_first (spec_matches (doc_filter a d)) (touch d s t) (store w)"
  "cache (written k a d s t w) = (cache w)(k := None)"
  "store_calls (written k a d s t w)
     = store_calls w @ [UpdateOneCall (doc_filter a d) (status_update s t)]"
  "responses (written k a d s t w) = responses w"
  by (simp_all add: written_def)

lemma find_matches_written:
  assumes "find (spec_matches (doc_filter a d)) (store w) = Some r"
  shows "find (spec_matches (doc_filter a d)) (store (written k a d s t w))
           = Some (touch d s t r)"
proof -
  have "find (spec_matches (doc_filter a d))
          (update_first (spec_matches (doc_filter a d)) (touch d s t) (store w))
        = map_option (touch d s t) (find (spec_matches (doc_filter a d)) (store w))"
    by (rule find_update_first_same) (rule matches_touch)
  with assms show ?thesis by (simp add: written_simps)
qed

lemma store_GetDocument:
  "store (fst (GetDocument (spec_env digest E) a d w)) = store w"
  by (simp add: GetDocument_spec JSON_simps split: option.splits)

lemma store_UpdateDocument:
  "store (fst (UpdateDocument (spec_env digest E) t a d s w))
     = (case digest (CollectionApplicants, canonical (doc_filter a d)) of
          None \<Rightarrow> store w
        | Some k \<Rightarrow> update_first (spec_matches (doc_filter a d)) (touch d s t) (store w))"
proof (cases "digest (CollectionApplicants, canonical (doc_filter a d))")
  case None
  then show ?thesis by (simp add: UpdateDocument_spec JSON_simps)
next
  case (Some k)
  obtain w2 x e where g: "GetDocument (spec_env digest E) a d (written k a d s t w) = (w2, x, e)"
    by (cases "GetDocument (spec_env digest E) a d (written k a d s t w)") auto
  have "store w2 = store (written k a d s t w)"
    using store_GetDocument [of digest E a d "written k a d s t w"] g by simp
  then show ?thesis
    by (cases e) (simp_all add: UpdateDocument_spec Some g JSON_simps written_simps)
qed

lemma UpdateDocument_on_record:
  assumes key: "digest (CollectionApplicants, canonical (doc_filter a d)) = Some k"
      and rec: "find (spec_matches (doc_filter a d)) (store w) = Some r"
      and x: "first_doc d r = [x]"
  shows "UpdateDocument (spec_env digest E) t a d s w
           = ((written k a d s t w)
                \<lparr>store_calls := store_calls (written k a d s t w) @ [FindOneCall (doc_filter a d)],
                 cache := (cache (written k a d s t w))(k \<mapsto> [stamp s t x])\<rparr>,
              stamp s t x, None)"
proof -
  let ?F = "doc_filter a d"
  let ?w1 = "written k a d s t w"
  have f1: "find (spec_matches ?F) (store ?w1) = Some (touch d s t r)"
    using rec by (rule find_matches_written)
  have c1: "cache ?w1 k = None" by (simp add: written_simps)
  have fd: "first_doc d (touch d s t r) = [stamp s t x]"
    using x by (simp add: first_doc_touch)
  have g: "GetDocument (spec_env digest E) a d ?w1
        = (?w1\<lparr>store_calls := store_calls ?w1 @ [FindOneCall ?F],
               cache := (cache ?w1)(k \<mapsto> first_doc d (touch d s t r))\<rparr>,
           first_or_zero (first_doc d (touch d s t r)), None)"
    by (simp only: GetDocument_spec key option.case c1 f1)
  show ?thesis
    by (simp only: UpdateDocument_spec key option.case g prod.case fd first_or_zero_def
          list.case)
qed

lemma UpdateDocument_no_record:
  assumes key: "digest (CollectionApplicants, canonical (doc_filter a d)) = Some k"
      and rec: "find (spec_matches (doc_filter a d)) (store w) = None"
  shows "snd (snd (UpdateDocument (spec_env digest E) t a d s w)) = Some ErrNoDocuments"
proof -
  let ?F = "doc_filter a d"
  let ?w1 = "written k a d s t w"
  have "find (spec_matches ?F)
          (update_first (spec_matches ?F) (touch d s t) (store w))
        = map_option (touch d s t) (find (spec_matches ?F) (store w))"
    by (rule find_update_first_same) (rule matches_touch)
  then have f1: "find (spec_matches ?F) (store ?w1) = None"
    using rec by (simp add: written_simps)
  have c1: "cache ?w1 k = None" by (simp add: written_simps)
  have g: "GetDocument (spec_env digest E) a d ?w1
        = (?w1\<lparr>store_calls := store_calls ?w1 @ [FindOneCall ?F]\<rparr>,
           zero_Document, Some ErrNoDocuments)"
    by (simp only: GetDocument_spec key option.case c1 f1)
  show ?thesis
    by (simp add: UpdateDocument_spec key g)
qed

lemma UpdateDocument_no_record_world:
  assumes key: "digest (CollectionApplicants, canonical (doc_filter a d)) = Some k"
      and rec: "find (spec_matches (doc_filter a d)) (store w) = None"
  shows "UpdateDocument (spec_env digest E) t a d s w
           = (JSON 500 (H [(''error'', ''Could not retrieve updated document'')])
                ((written k a d s t w)
                   \<lparr>store_calls := store_calls (written k a d s t w)
                                     @ [FindOneCall (doc_filter a d)]\<rparr>),
              zero_Document, Some ErrNoDocuments)"
proof -
  let ?F = "doc_filter a d"
  let ?w1 = "written k a d s t w"
  have "find (spec_matches ?F)
          (update_first (spec_matches ?F) (touch d s t) (store w))
        = map_option (touch d s t) (find (spec_matches ?F) (store w))"
    by (rule find_update_first_same) (rule matches_touch)
  then have f1: "find (spec_matches ?F) (store ?w1) = None"
    using rec by (simp add: written_simps)
  have c1: "cache ?w1 k = None" by (simp add: written_simps)
  have g: "GetDocument (spec_env digest E) a d ?w1
        = (?w1\<lparr>store_calls := store_calls ?w1 @ [FindOneCall ?F]\<rparr>,
           zero_Document, Some ErrNoDocuments)"
    by (simp only: GetDocument_spec key option.case c1 f1)
  show ?thesis
    by (simp only: UpdateDocument_spec key option.case g prod.case)
qed

section \<open>Status transitions\<close>




text \<open>
  C8. Let the key of the document's filter be derived. \<^verbatim>\<open>UpdateDocument\<close> then calls
  the store exactly twice. The first call is \<^verbatim>\<open>UpdateOne\<close> with the filter on the
  applicant, on \<^verbatim>\<open>deleted\<close> and on the document id, and with an update document that
  is a \<^verbatim>\<open>$set\<close> of the two paths \<^verbatim>\<open>documents.$.status\<close> and
  \<^verbatim>\<open>documents.$.updated_at\<close> and of nothing else; the second call is the read. When no
  record matches the filter, the store is left as it was. Otherwise the store changes in
  one place: in the first record that matches, the first document with the requested id
  has \<^verbatim>\<open>Status\<close> and \<^verbatim>\<open>UpdatedAt\<close> set to the requested status and to the clock
  reading. Every other field of that document, its sibling documents, the other fields
  of the record and the other records are the same.
\<close>

theorem UpdateDocument_scoped_update:
  assumes key: "digest (CollectionApplicants, canonical (doc_filter applicantID docID)) = Some k"
  shows "store_calls (fst (UpdateDocument (spec_env digest E) now applicantID docID status w))
           = store_calls w
             @ [UpdateOneCall
                  [(''applicant_id'', BStr applicantID), (''deleted'', BBool False),
                   (''documents.document_id'', BStr docID)]
                  [(''$set'', BMap [(''documents.$.status'', BInt status),
                                   (''documents.$.updated_at'', BTime now)])],
                FindOneCall
                  [(''applicant_id'', BStr applicantID), (''deleted'', BBool False),
                   (''documents.document_id'', BStr docID)]]
       \<and> ((\<forall>r\<in>set (store w). \<not> (Applicant.ApplicantID r = applicantID
                                    \<and> \<not> Applicant.Deleted r
                                    \<and> docID \<in> DocumentID ` set (Documents r)))
            \<and> store (fst (UpdateDocument (spec_env digest E) now applicantID docID status w))
                = store w
          \<or> (\<exists>i j. i < length (store w)
                \<and> Applicant.ApplicantID (store w ! i) = applicantID
                \<and> \<not> Applicant.Deleted (store w ! i)
                \<and> (\<forall>i'<i. \<not> (Applicant.ApplicantID (store w ! i') = applicantID
                               \<and> \<not> Applicant.Deleted (store w ! i')
                               \<and> docID \<in> DocumentID ` set (Documents (store w ! i'))))
                \<and> j < length (Documents (store w ! i))
                \<and> DocumentID (Documents (store w ! i) ! j) = docID
                \<and> (\<forall>j'<j. DocumentID (Documents (store w ! i) ! j') \<noteq> docID)
                \<and> store (fst (UpdateDocument (spec_env digest E) now applicantID docID
                                 status w))
                    = (store w)[i := (store w ! i)\<lparr>Documents :=
                         (Documents (store w ! i))[j := (Documents (store w ! i) ! j)
                            \<lparr>Status := status, Document.UpdatedAt := now\<rparr>]\<rparr>]))"
proof -
  let ?F = "doc_filter applicantID docID"
  let ?P = "\<lambda>y. DocumentID y = docID"
  let ?R = "UpdateDocument (spec_env digest E) now applicantID docID status w"
  let ?w1 = "written k applicantID docID status now w"
  have F: "[(''applicant_id'', BStr applicantID), (''deleted'', BBool False),
            (''documents.document_id'', BStr docID)] = ?F"
    by (simp add: doc_filter_def)
  have U: "[(''$set'', BMap [(''documents.$.status'', BInt status),
                            (''documents.$.updated_at'', BTime now)])]
           = status_update status now"
    by (simp add: status_update_def)
  show ?thesis
  proof (cases "find (spec_matches ?F) (store w)")
    case None
    have R: "?R = (JSON 500 (H [(''error'', ''Could not retrieve updated document'')])
                (?w1\<lparr>store_calls := store_calls ?w1 @ [FindOneCall ?F]\<rparr>),
              zero_Document, Some ErrNoDocuments)"
      by (rule UpdateDocument_no_record_world [where digest = digest and a = applicantID
            and d = docID, OF key None])
    have c: "store_calls (fst ?R) = store_calls w
               @ [UpdateOneCall ?F (status_update status now), FindOneCall ?F]"
      by (simp add: R JSON_simps written_simps)
    have "update_first (spec_matches ?F) (touch docID status now) (store w) = store w"
      using None by (rule update_first_no_match)
    then have s: "store (fst ?R) = store w"
      by (simp add: R JSON_simps written_simps)
    have "\<forall>r\<in>set (store w). \<not> spec_matches ?F r"
      using None by (rule find_NoneD)
    then have n: "\<forall>r\<in>set (store w). \<not> (Applicant.ApplicantID r = applicantID
                                    \<and> \<not> Applicant.Deleted r
                                    \<and> docID \<in> DocumentID ` set (Documents r))"
      by (simp only: matches_plain)
    show ?thesis
      unfolding F U using c s n by blast
  next
    case (Some r)
    have m: "spec_matches ?F r" using find_SomeD [OF Some] by simp
    then obtain x where x: "first_doc docID r = [x]" using matches_first_doc by blast
    then have fx: "find ?P (Documents r) = Some x"
      by (simp add: first_doc_def split: option.splits)
    have R: "?R = (?w1\<lparr>store_calls := store_calls ?w1 @ [FindOneCall ?F],
                        cache := (cache ?w1)(k \<mapsto> [stamp status now x])\<rparr>,
                   stamp status now x, None)"
      by (rule UpdateDocument_on_record [where digest = digest and a = applicantID
            and d = docID, OF key Some x])
    have c: "store_calls (fst ?R) = store_calls w
               @ [UpdateOneCall ?F (status_update status now), FindOneCall ?F]"
      by (simp add: R written_simps)
    have s: "store (fst ?R) = update_first (spec_matches ?F) (touch docID status now) (store w)"
      by (simp add: R written_simps)
    from update_first_at [OF Some, of "touch docID status now"] obtain i
      where i: "i < length (store w)" "store w ! i = r"
        "\<forall>i'<i. \<not> spec_matches ?F (store w ! i')"
        "update_first (spec_matches ?F) (touch docID status now) (store w)
           = (store w)[i := touch docID status now r]" by blast
    from update_first_at [OF fx, of "stamp status now"] obtain j
      where j: "j < length (Documents r)" "Documents r ! j = x"
        "\<forall>j'<j. DocumentID (Documents r ! j') \<noteq> docID"
        "update_first ?P (stamp status now) (Documents r)
           = (Documents r)[j := stamp status now x]" by blast
    have xd: "DocumentID x = docID" using find_SomeD [OF fx] by simp
    have t: "touch docID status now r
           = r\<lparr>Documents := (Documents r)[j := (Documents r ! j)
                  \<lparr>Status := status, Document.UpdatedAt := now\<rparr>]\<rparr>"
      using j(4) j(2) by (simp add: touch_def stamp_def)
    have s': "store (fst ?R) = (store w)[i := (store w ! i)\<lparr>Documents :=
                 (Documents (store w ! i))[j := (Documents (store w ! i) ! j)
                    \<lparr>Status := status, Document.UpdatedAt := now\<rparr>]\<rparr>]"
      using s i(4) t i(2) by simp
    have mi: "Applicant.ApplicantID (store w ! i) = applicantID
              \<and> \<not> Applicant.Deleted (store w ! i)"
      using m i(2) by (simp add: matches_plain)
    have fi: "\<forall>i'<i. \<not> (Applicant.ApplicantID (store w ! i') = applicantID
                               \<and> \<not> Applicant.Deleted (store w ! i')
                               \<and> docID \<in> DocumentID ` set (Documents (store w ! i')))"
      using i(3) by (simp only: matches_plain)
    have ji: "j < length (Documents (store w ! i))
              \<and> DocumentID (Documents (store w ! i) ! j) = docID
              \<and> (\<forall>j'<j. DocumentID (Documents (store w ! i) ! j') \<noteq> docID)"
      using j(1) j(2) j(3) xd i(2) by simp
    have "\<exists>i j. i < length (store w)
                \<and> Applicant.ApplicantID (store w ! i) = applicantID
                \<and> \<not> Applicant.Deleted (store w ! i)
                \<and> (\<forall>i'<i. \<not> (Applicant.ApplicantID (store w ! i') = applicantID
                               \<and> \<not> Applicant.Deleted (store w ! i')
                               \<and> docID \<in> DocumentID ` set (Documents (store w ! i'))))
                \<and> j < length (Documents (store w ! i))
                \<and> DocumentID (Documents (store w ! i) ! j) = docID
                \<and> (\<forall>j'<j. DocumentID (Documents (store w ! i) ! j') \<noteq> docID)
                \<and> store (fst ?R)
                    = (store w)[i := (store w ! i)\<lparr>Documents :=
                         (Documents (store w ! i))[j := (Documents (store w ! i) ! j)
                            \<lparr>Status := status, Document.UpdatedAt := now\<rparr>]\<rparr>]"
      using i(1) mi fi ji s' by blast
    then show ?thesis
      unfolding F U using c by blast
  qed
qed

text \<open>
  On the example world: a status update of document \<^verbatim>\<open>d1\<close> changes that document's
  two fields and nothing else, and one of the absent document \<^verbatim>\<open>d3\<close> changes nothing.
\<close>

theorem UpdateDocument_scoped_update_witness:
  "example_digest (CollectionApplicants, canonical (doc_filter ''a1'' ''d1''))
     = Some ''applicants:applicant_id=a1;deleted=false;documents.document_id=d1;''
   \<and> store_calls (fst (UpdateDocument example_env 10 ''a1'' ''d1'' 1 example_world))
       = [UpdateOneCall
            [(''applicant_id'', BStr ''a1''), (''deleted'', BBool False),
             (''documents.document_id'', BStr ''d1'')]
            [(''$set'', BMap [(''documents.$.status'', BInt 1),
                             (''documents.$.updated_at'', BTime 10)])],
          FindOneCall
            [(''applicant_id'', BStr ''a1''), (''deleted'', BBool False),
             (''documents.document_id'', BStr ''d1'')]]
   \<and> store (fst (UpdateDocument example_env 10 ''a1'' ''d1'' 1 example_world))
       = [example_applicant\<lparr>Documents :=
            [example_doc1\<lparr>Status := 1, Document.UpdatedAt := 10\<rparr>, example_doc2]\<rparr>]
   \<and> example_digest (CollectionApplicants, canonical (doc_filter ''a1'' ''d3''))
       = Some ''applicants:applicant_id=a1;deleted=false;documents.document_id=d3;''
   \<and> store (fst (UpdateDocument example_env 10 ''a1'' ''d3'' 1 example_world))
       = [example_applicant]"
proof -
  have k: "example_digest (CollectionApplicants, canonical (doc_filter ''a1'' ''d1''))
             = Some ''applicants:applicant_id=a1;deleted=false;documents.document_id=d1;''"
    by code_simp
  have e: "spec_env example_digest example_env = example_env"
    by (simp add: spec_env_def example_env_def)
  have w: "store example_world = [example_applicant]" "store_calls example_world = []"
    by (simp_all add: example_world_def)
  have a: "Applicant.ApplicantID example_applicant = ''a1''"
    "\<not> Applicant.Deleted example_applicant"
    "Documents example_applicant = [example_doc1, example_doc2]"
    by (simp_all add: example_applicant_def)
  have d: "DocumentID example_doc1 = ''d1''" "DocumentID example_doc2 = ''d2''"
    by (simp_all add: example_doc1_def example_doc2_def)
  from UpdateDocument_scoped_update [where digest = example_digest and applicantID = "''a1''"
      and docID = "''d1''" and E = example_env and now = 10 and status = 1
      and w = example_world, OF k]
  have c: "store_calls (fst (UpdateDocument example_env 10 ''a1'' ''d1'' 1 example_world))
       = [UpdateOneCall
            [(''applicant_id'', BStr ''a1''), (''deleted'', BBool False),
             (''documents.document_id'', BStr ''d1'')]
            [(''$set'', BMap [(''documents.$.status'', BInt 1),
                             (''documents.$.updated_at'', BTime 10)])],
          FindOneCall
            [(''applicant_id'', BStr ''a1''), (''deleted'', BBool False),
             (''documents.document_id'', BStr ''d1'')]]"
    and s: "store (fst (UpdateDocument example_env 10 ''a1'' ''d1'' 1 example_world))
       = [example_applicant\<lparr>Documents :=
            [example_doc1\<lparr>Status := 1, Document.UpdatedAt := 10\<rparr>, example_doc2]\<rparr>]"
    unfolding e w by (auto simp: a d nth_Cons split: nat.splits)
  have k3: "example_digest (CollectionApplicants, canonical (doc_filter ''a1'' ''d3''))
             = Some ''applicants:applicant_id=a1;deleted=false;documents.document_id=d3;''"
    by code_simp
  from UpdateDocument_scoped_update [where digest = example_digest and applicantID = "''a1''"
      and docID = "''d3''" and E = example_env and now = 10 and status = 1
      and w = example_world, OF k3]
  consider (same) "store (fst (UpdateDocument example_env 10 ''a1'' ''d3'' 1 example_world))
                     = store example_world"
    | (hit) i j where "i < length (store example_world)"
        "j < length (Documents (store example_world ! i))"
        "DocumentID (Documents (store example_world ! i) ! j) = ''d3''"
    unfolding e by blast
  then have s3: "store (fst (UpdateDocument example_env 10 ''a1'' ''d3'' 1 example_world))
       = [example_applicant]"
  proof cases
    case same
    then show ?thesis by (simp add: w)
  next
    case hit
    from hit(1) have "i = 0" by (simp add: w)
    with hit(2) have "j = 0 \<or> j = 1" by (auto simp: w a)
    with hit(3) \<open>i = 0\<close> have False by (auto simp: w a d)
    then show ?thesis ..
  qed
  from k c s k3 s3 show ?thesis by simp
qed

text \<open>
  The modelled \<^verbatim>\<open>$set\<close> tells a scoped update from other updates. Replacing the
  element through \<^verbatim>\<open>documents.$\<close> loses the file URL, which the status update keeps.
  A positional path under a filter without a condition on the array cannot be applied,
  and the record stays as it was. A field of the record such as \<^verbatim>\<open>first_name\<close> is
  set, also through \<^verbatim>\<open>UpdateApplicant\<close>.
\<close>

lemma element_overwrite_is_not_scoped:
  "map (map FileURL \<circ> Documents)
     (store (fst (spec_UpdateOne (doc_filter ''a1'' ''d1'')
        [(''$set'', BMap [(''documents.$'',
            BDoc (zero_Document\<lparr>DocumentID := ''d1'', Status := 1,
                                  Document.UpdatedAt := 10\<rparr>))])]
        example_world)))
   = [[[], ''https://bucket/d2.pdf'']]
   \<and> map (map FileURL \<circ> Documents)
     (store (fst (spec_UpdateOne (doc_filter ''a1'' ''d1'') (status_update 1 10) example_world)))
   = [[''https://bucket/d1.pdf'', ''https://bucket/d2.pdf'']]
   \<and> map FirstName
     (store (fst (spec_UpdateOne [(''applicant_id'', BStr ''a1'')]
        [(''$set'', BMap [(''first_name'', BStr ''Grace''), (''documents.$.status'', BInt 1)])]
        example_world))) = [''Ada'']
   \<and> snd (spec_UpdateOne [(''applicant_id'', BStr ''a1'')]
        [(''$set'', BMap [(''first_name'', BStr ''Grace''), (''documents.$.status'', BInt 1)])]
        example_world) = Some (Error ''the update cannot be applied'')
   \<and> map FirstName
     (store (fst (spec_UpdateOne [(''applicant_id'', BStr ''a1'')]
        [(''$set'', BMap [(''first_name'', BStr ''Grace'')])] example_world))) = [''Grace'']"
  by code_simp

lemma UpdateApplicant_first_name:
  "FirstName (fst (snd (UpdateApplicant example_env CollectionApplicants 10 ''a1''
      [(''first_name'', BStr ''Grace'')] example_world))) = ''Grace''
   \<and> Applicant.UpdatedAt (fst (snd (UpdateApplicant example_env CollectionApplicants 10 ''a1''
      [(''first_name'', BStr ''Grace'')] example_world))) = 10"
  by code_simp

section \<open>Missing documents\<close>




section \<open>Cache keys of the modelled codec\<close>

lemma canonical_unique:
  assumes "distinct (map fst f1)" "distinct (map fst f2)" "set f1 = set f2"
  shows "canonical f1 = canonical f2"
proof -
  have inj: "inj_on fst (set f1)"
    using assms(1) by (simp add: distinct_map)
  have "sort_key fst f1 = sort_key fst f2"
  proof (rule map_sorted_distinct_set_unique [where f = fst])
    show "inj_on fst (set (sort_key fst f1) \<union> set (sort_key fst f2))"
      using inj assms(3) by simp
    show "distinct (map fst (sort_key fst f1))" using assms(1) by (simp add: distinct_map)
    show "distinct (map fst (sort_key fst f2))" using assms(2) by (simp add: distinct_map)
    show "set (sort_key fst f1) = set (sort_key fst f2)" using assms(3) by simp
  qed simp_all
  then show ?thesis by (simp add: canonical_def)
qed

text \<open>
  The modelled codec does not depend on the order in which a filter lists its fields:
  two filters with the same fields and values (a Go map has each field once) get the
  same key, or both fail alike. So the key that \<^verbatim>\<open>GenerateFilterAndCacheKey\<close> gets
  from it, in the document service and in the applicant service, is the key of every
  reordering of the filter it builds. This is a property of the model of section 4.4
  of the specification, not of \<^verbatim>\<open>common.GenerateCacheKey\<close> itself.
\<close>

lemma modelled_key_order_independent:
  assumes "distinct (map fst f1)" "distinct (map fst f2)" "set f1 = set f2"
  shows "spec_GenerateCacheKey digest collectionName f1
           = spec_GenerateCacheKey digest collectionName f2
       \<and> (f1 = [(''applicant_id'', BStr applicantID), (''deleted'', BBool False),
                 (''documents.document_id'', BStr docID)] \<longrightarrow>
            snd (GenerateFilterAndCacheKey (spec_env digest E) applicantID docID collectionName)
              = spec_GenerateCacheKey digest collectionName f2)
       \<and> (f1 = [(''applicant_id'', BStr applicantID), (''client_id'', BStr clientID),
                 (''deleted'', BBool False)] \<longrightarrow>
            snd (applicant_GenerateFilterAndCacheKey (spec_env digest E) applicantID clientID
                   collectionName)
              = spec_GenerateCacheKey digest collectionName f2)"
proof -
  have c: "canonical f1 = canonical f2" by (rule canonical_unique [OF assms])
  show ?thesis
    using c
    by (auto simp: GenerateFilterAndCacheKey_def applicant_GenerateFilterAndCacheKey_def
                   spec_env_def spec_GenerateCacheKey_def split: option.splits)
qed

lemma modelled_key_order_independent_example:
  "snd (GenerateFilterAndCacheKey (spec_env example_digest example_env) ''a1'' ''d1''
          CollectionApplicants)
     = spec_GenerateCacheKey example_digest CollectionApplicants
         [(''documents.document_id'', BStr ''d1''), (''deleted'', BBool False),
          (''applicant_id'', BStr ''a1'')]
   \<and> spec_GenerateCacheKey example_digest CollectionApplicants
         [(''documents.document_id'', BStr ''d1''), (''deleted'', BBool False),
          (''applicant_id'', BStr ''a1'')]
     = (''applicants:applicant_id=a1;deleted=false;documents.document_id=d1;'', None)"
proof -
  have d1: "distinct (map fst [(''applicant_id'', BStr ''a1''), (''deleted'', BBool False),
                               (''documents.document_id'', BStr ''d1'')])"
    by simp
  have d2: "distinct (map fst [(''documents.document_id'', BStr ''d1''),
                               (''deleted'', BBool False), (''applicant_id'', BStr ''a1'')])"
    by simp
  have s: "set [(''applicant_id'', BStr ''a1''), (''deleted'', BBool False),
                (''documents.document_id'', BStr ''d1'')]
           = set [(''documents.document_id'', BStr ''d1''), (''deleted'', BBool False),
                  (''applicant_id'', BStr ''a1'')]"
    by auto
  have v: "spec_GenerateCacheKey example_digest CollectionApplicants
             [(''documents.document_id'', BStr ''d1''), (''deleted'', BBool False),
              (''applicant_id'', BStr ''a1'')]
           = (''applicants:applicant_id=a1;deleted=false;documents.document_id=d1;'', None)"
    by code_simp
  from modelled_key_order_independent [OF d1 d2 s, of example_digest CollectionApplicants
      "''a1''" "''d1''" example_env]
  show ?thesis using v by simp
qed

section \<open>Freshly assembled records\<close>

text \<open>
  What \<^verbatim>\<open>createDocumentObject\<close> sets: one clock reading for both timestamps, the
  initial status, the soft-delete fields and the identifier that was drawn.
\<close>

lemma createDocumentObject_fields:
  "Document.CreatedAt (createDocumentObject E uuid now a t c) = now
   \<and> Document.UpdatedAt (createDocumentObject E uuid now a t c) = now
   \<and> Status (createDocumentObject E uuid now a t c) = DocumentUploaded E
   \<and> Document.Deleted (createDocumentObject E uuid now a t c) = False
   \<and> Document.DeletedAt (createDocumentObject E uuid now a t c) = None
   \<and> Document.DeletedBy (createDocumentObject E uuid now a t c) = None
   \<and> DocumentID (createDocumentObject E uuid now a t c) = uuid"
  by (simp add: createDocumentObject_def)

text \<open>
  \<^verbatim>\<open>createApplicantObject\<close> reads the clock once for each timestamp.
\<close>

lemma createApplicantObject_fields:
  "Applicant.CreatedAt (createApplicantObject uuid now1 now2 f m l e p lv enc) = now1
   \<and> Applicant.UpdatedAt (createApplicantObject uuid now1 now2 f m l e p lv enc) = now2
   \<and> Applicant.Deleted (createApplicantObject uuid now1 now2 f m l e p lv enc) = False
   \<and> Applicant.DeletedAt (createApplicantObject uuid now1 now2 f m l e p lv enc) = None
   \<and> Applicant.DeletedBy (createApplicantObject uuid now1 now2 f m l e p lv enc) = None
   \<and> Applicant.ApplicantID (createApplicantObject uuid now1 now2 f m l e p lv enc) = uuid"
  by (simp add: createApplicantObject_def)

text \<open>
  C9 at a failing input: when the clock moves between the two readings, the applicant
  is assembled with \<^verbatim>\<open>CreatedAt\<close> different from \<^verbatim>\<open>UpdatedAt\<close>.
\<close>

theorem createApplicantObject_timestamps_differ:
  "Applicant.CreatedAt (createApplicantObject ''u1'' 100 101 ''Ada'' ''M'' ''Lovelace''
      ''ada@example.com'' ''555'' ''basic'' \<lparr>DOB = ''x'', Address = ''y'', EncryptedKey = ''z''\<rparr>)
   \<noteq> Applicant.UpdatedAt (createApplicantObject ''u1'' 100 101 ''Ada'' ''M'' ''Lovelace''
      ''ada@example.com'' ''555'' ''basic'' \<lparr>DOB = ''x'', Address = ''y'', EncryptedKey = ''z''\<rparr>)"
  by (simp add: createApplicantObject_def)

section \<open>Values outside the enumerations\<close>

text \<open>
  A status that \<^verbatim>\<open>models.ParseDocumentStatus\<close> refuses stops the controller before
  the service is called.
\<close>

lemma UpdateDocument_controller_invalid_status:
  assumes "snd (ParseDocumentStatus E status_str) = Some err"
  shows "UpdateDocument_controller E service docID ((status_str, applicantID), None) w
           = JSON 400 (H [(''error'', ''Invalid status'')]) w"
  using assms
  by (cases "ParseDocumentStatus E status_str") (simp add: UpdateDocument_controller_def)

text \<open>
  A document type that \<^verbatim>\<open>models.ParseDocumentType\<close> refuses does not stop
  \<^verbatim>\<open>UploadDocument\<close>: the error is dropped, and an upload that is otherwise well formed
  goes on to \<^verbatim>\<open>CreateDocument\<close> with whatever value the parser returned beside the
  error.
\<close>

lemma UploadDocument_ignores_type_error:
  assumes "multipart_err r = None" "form_file r = (mimeType, None)"
      and "mimeTypeToExtension mimeType = Some ext"
      and "form_values r ''applicant_id'' = a" "a \<noteq> []"
      and "form_values r ''document_type'' = t" "t \<noteq> []"
      and "form_values r ''country'' = c" "c \<noteq> []"
      and "UploadFile E (uuid @ ext) mimeType = (url, None)"
  shows "UploadDocument E uuid now r w
           = (CreateDocument E a ((createDocumentObject E uuid now a t c)\<lparr>FileURL := url\<rparr>) w,
              (createDocumentObject E uuid now a t c)\<lparr>FileURL := url\<rparr>, None)
         \<and> DocumentType (createDocumentObject E uuid now a t c) = fst (ParseDocumentType E t)"
proof -
  have m: "mimeType \<noteq> []"
    using assms(3) by (auto simp: mimeTypeToExtension_def)
  have g: "GetFileExtension E mimeType = (ext, None)"
    using assms(3) by (simp add: GetFileExtension_def)
  have i: "DocumentID (createDocumentObject E uuid now a t c) = uuid"
    by (simp add: createDocumentObject_def)
  show ?thesis
    using assms m g i by (simp add: UploadDocument_def Let_def createDocumentObject_def)
qed

text \<open>
  C4 at a failing input: an upload naming the document type \<^verbatim>\<open>not-a-type\<close>, which the
  parser refuses, succeeds and pushes a document of type 0 onto the applicant's
  \<^verbatim>\<open>documents\<close> array.
\<close>

theorem UploadDocument_unknown_type_is_stored:
  "snd (ParseDocumentType example_env ''not-a-type'') = Some (Error ''invalid document type'')
   \<and> (case UploadDocument example_env ''u9'' 20 (example_upload ''not-a-type'') example_world of
        (w, d, e) \<Rightarrow> e = None \<and> DocumentType d = 0
          \<and> store_calls w =
               [UpdateOneCall [(''applicant_id'', BStr ''a1''), (''deleted'', BBool False)]
                              [(''$push'', BMap [(''documents'', BDoc d)])]]
          \<and> map Documents (store w) = [[example_doc1, example_doc2, d]]
          \<and> map fst (responses w) = [200])"
  by code_simp

section \<open>Reads after a write\<close>

lemma first_doc_find:
  "first_doc d r = [x] \<longleftrightarrow> find (\<lambda>y. DocumentID y = d) (Documents r) = Some x"
  by (simp add: first_doc_def split: option.splits)

lemma first_doc_id: "first_doc d r = [x] \<Longrightarrow> DocumentID x = d"
  using find_SomeD [of "\<lambda>y. DocumentID y = d" "Documents r" x] by (simp add: first_doc_find)

lemma first_doc_touch_other:
  assumes "first_doc d r = [x]"
  shows "first_doc d (touch d' s' t' r) = [x]
       \<or> (d' = d \<and> first_doc d (touch d' s' t' r) = [stamp s' t' x])"
proof -
  let ?P = "\<lambda>y. DocumentID y = d"
  let ?Q = "\<lambda>y. DocumentID y = d'"
  let ?U = "update_first ?Q (stamp s' t') (Documents r)"
  have f: "find ?P (Documents r) = Some x" using assms by (simp only: first_doc_find)
  have D: "Documents (touch d' s' t' r) = ?U" by (simp add: touch_def)
  from find_update_first_other [where P = ?P and Q = ?Q and f = "stamp s' t'"
      and xs = "Documents r", OF stamp_P]
  have "find ?P ?U = Some x \<or> (?Q x \<and> find ?P ?U = Some (stamp s' t' x))"
    using f by auto
  then show ?thesis
  proof
    assume "find ?P ?U = Some x"
    then have "first_doc d (touch d' s' t' r) = [x]"
      by (simp only: first_doc_find D)
    then show ?thesis by (rule disjI1)
  next
    assume q: "?Q x \<and> find ?P ?U = Some (stamp s' t' x)"
    then have "first_doc d (touch d' s' t' r) = [stamp s' t' x]"
      by (simp only: first_doc_find D)
    moreover have "d' = d" using q first_doc_id [OF assms] by simp
    ultimately show ?thesis by blast
  qed
qed

lemma store_fresh_update:
  assumes "store_fresh t a d rs" and "t \<le> t'"
  shows "store_fresh t a d (update_first (spec_matches (doc_filter a' d')) (touch d' s' t') rs)"
proof -
  let ?P = "spec_matches (doc_filter a d)"
  let ?Q = "spec_matches (doc_filter a' d')"
  let ?U = "update_first ?Q (touch d' s' t') rs"
  from assms(1) obtain r x where r: "find ?P rs = Some r" and x: "first_doc d r = [x]"
    and tx: "t \<le> Document.UpdatedAt x"
    unfolding store_fresh_def by blast
  from find_update_first_other [where P = ?P and Q = ?Q and f = "touch d' s' t'"
      and xs = rs, OF matches_touch]
  have "find ?P ?U = Some r \<or> (?Q r \<and> find ?P ?U = Some (touch d' s' t' r))"
    using r by auto
  then show ?thesis
  proof
    assume "find ?P ?U = Some r"
    with x tx show ?thesis unfolding store_fresh_def by blast
  next
    assume q: "?Q r \<and> find ?P ?U = Some (touch d' s' t' r)"
    from first_doc_touch_other [OF x, of d' s' t']
    show ?thesis
    proof
      assume "first_doc d (touch d' s' t' r) = [x]"
      with q tx show ?thesis unfolding store_fresh_def by blast
    next
      assume "d' = d \<and> first_doc d (touch d' s' t' r) = [stamp s' t' x]"
      moreover have "t \<le> Document.UpdatedAt (stamp s' t' x)"
        using assms(2) by (simp add: stamp_def)
      ultimately show ?thesis using q unfolding store_fresh_def by blast
    qed
  qed
qed

lemma fresh_cong:
  "store w' = store w \<Longrightarrow> cache w' k = cache w k \<Longrightarrow> fresh k t a d w' = fresh k t a d w"
  by (simp add: fresh_def)

lemma fresh_JSON: "fresh k t a d (JSON c b w) = fresh k t a d w"
  by (rule fresh_cong) (simp_all add: JSON_simps)

lemma cache_GetDocument_at:
  "cache (fst (GetDocument (spec_env digest E) a' d' w)) k = cache w k
   \<or> (digest (CollectionApplicants, canonical (doc_filter a' d')) = Some k
       \<and> (\<exists>r. find (spec_matches (doc_filter a' d')) (store w) = Some r
               \<and> cache (fst (GetDocument (spec_env digest E) a' d' w)) k = Some (first_doc d' r)))"
  by (simp add: GetDocument_spec JSON_simps split: option.splits)

lemma fresh_GetDocument:
  assumes f: "fresh k t a d w"
      and key: "digest (CollectionApplicants, canonical (doc_filter a d)) = Some k"
      and own: "own_key digest a d a' d'"
  shows "fresh k t a d (fst (GetDocument (spec_env digest E) a' d' w))"
proof -
  let ?w' = "fst (GetDocument (spec_env digest E) a' d' w)"
  have s: "store ?w' = store w" by (rule store_GetDocument)
  from f have sf: "store_fresh t a d (store w)" and cf: "cache_fresh t d (cache w k)"
    by (simp_all add: fresh_def)
  from cache_GetDocument_at [of digest E a' d' w k]
  have "cache_fresh t d (cache ?w' k)"
  proof
    assume "cache ?w' k = cache w k"
    with cf show ?thesis by simp
  next
    assume h: "digest (CollectionApplicants, canonical (doc_filter a' d')) = Some k
       \<and> (\<exists>r. find (spec_matches (doc_filter a' d')) (store w) = Some r
               \<and> cache ?w' k = Some (first_doc d' r))"
    then have e: "a' = a \<and> d' = d" using own key by (simp add: own_key_def)
    from h e obtain r where r: "find (spec_matches (doc_filter a d)) (store w) = Some r"
      "cache ?w' k = Some (first_doc d r)" by auto
    from sf r(1) obtain x where x: "first_doc d r = [x]" "t \<le> Document.UpdatedAt x"
      unfolding store_fresh_def by auto
    have "DocumentID x = d" using x(1) by (rule first_doc_id)
    with x r(2) show ?thesis by (simp add: cache_fresh_def)
  qed
  with sf s show ?thesis by (simp add: fresh_def)
qed

lemma fresh_written:
  assumes "fresh k t a d w" and "t \<le> t'"
  shows "fresh k t a d (written k' a' d' s' t' w)"
proof -
  from assms(1) have sf: "store_fresh t a d (store w)" and cf: "cache_fresh t d (cache w k)"
    by (simp_all add: fresh_def)
  have "store_fresh t a d (store (written k' a' d' s' t' w))"
    unfolding written_simps using sf assms(2) by (rule store_fresh_update)
  moreover have "cache_fresh t d (cache (written k' a' d' s' t' w) k)"
    using cf by (simp add: written_simps cache_fresh_def)
  ultimately show ?thesis by (simp add: fresh_def)
qed

lemma fresh_UpdateDocument:
  assumes f: "fresh k t a d w"
      and key: "digest (CollectionApplicants, canonical (doc_filter a d)) = Some k"
      and own: "own_key digest a d a' d'"
      and le: "t \<le> t'"
  shows "fresh k t a d (fst (UpdateDocument (spec_env digest E) t' a' d' s' w))"
proof (cases "digest (CollectionApplicants, canonical (doc_filter a' d'))")
  case None
  then show ?thesis using f by (simp add: UpdateDocument_spec fresh_JSON)
next
  case (Some k')
  let ?w1 = "written k' a' d' s' t' w"
  obtain w2 x e where g: "GetDocument (spec_env digest E) a' d' ?w1 = (w2, x, e)"
    by (cases "GetDocument (spec_env digest E) a' d' ?w1") auto
  have "fresh k t a d (fst (GetDocument (spec_env digest E) a' d' ?w1))"
    using fresh_written [OF f le] key own by (rule fresh_GetDocument)
  then have "fresh k t a d w2" using g by simp
  then show ?thesis
    by (cases e) (simp_all add: UpdateDocument_spec Some g fresh_JSON)
qed

lemma fresh_run:
  assumes key: "digest (CollectionApplicants, canonical (doc_filter a d)) = Some k"
  shows "fresh k t a d w \<Longrightarrow> list_all (admissible digest t a d) ops
         \<Longrightarrow> fresh k t a d (run (spec_env digest E) ops w)"
proof (induction ops arbitrary: w)
  case Nil
  then show ?case by (simp add: run_def)
next
  case (Cons op ops)
  have "fresh k t a d (run_op (spec_env digest E) op w)"
  proof (cases op)
    case (GetOp a' d')
    with Cons.prems show ?thesis
      using fresh_GetDocument [where digest = digest and k = k and a = a and d = d, OF _ key]
      by simp
  next
    case (UpdateOp t' a' d' s')
    with Cons.prems show ?thesis
      using fresh_UpdateDocument [where digest = digest and k = k and a = a and d = d, OF _ key]
      by simp
  qed
  with Cons.IH Cons.prems(2) show ?case by (simp add: run_def)
qed

lemma fresh_after_write:
  assumes w: "UpdateDocument (spec_env digest E) t a d s w = (w1, x1, None)"
  shows "\<exists>k. digest (CollectionApplicants, canonical (doc_filter a d)) = Some k
            \<and> fresh k t a d w1"
proof (cases "digest (CollectionApplicants, canonical (doc_filter a d))")
  case None
  then have "snd (snd (UpdateDocument (spec_env digest E) t a d s w)) = Some KeyDerivationError"
    by (simp add: UpdateDocument_spec)
  with w show ?thesis by simp
next
  case (Some k)
  show ?thesis
  proof (cases "find (spec_matches (doc_filter a d)) (store w)")
    case None
    from UpdateDocument_no_record [where digest = digest and a = a and d = d and E = E
        and t = t and s = s, OF Some None] w
    show ?thesis by simp
  next
    case (Some r)
    have "spec_matches (doc_filter a d) r" using find_SomeD [OF Some] by simp
    then obtain x where x: "first_doc d r = [x]" "DocumentID x = d"
      using matches_first_doc by blast
    let ?w1 = "written k a d s t w"
    from UpdateDocument_on_record [where digest = digest and a = a and d = d and E = E
        and t = t and s = s, OF \<open>digest _ = Some k\<close> Some x(1)] w
    have w1: "w1 = ?w1\<lparr>store_calls := store_calls ?w1 @ [FindOneCall (doc_filter a d)],
                        cache := (cache ?w1)(k \<mapsto> [stamp s t x])\<rparr>"
      by simp
    have st: "store w1 = store ?w1" by (simp add: w1)
    have "find (spec_matches (doc_filter a d)) (store ?w1) = Some (touch d s t r)"
      using Some by (rule find_matches_written)
    moreover have "first_doc d (touch d s t r) = [stamp s t x]"
      using x(1) by (simp add: first_doc_touch)
    moreover have "t \<le> Document.UpdatedAt (stamp s t x)" by (simp add: stamp_def)
    ultimately have "store_fresh t a d (store w1)"
      unfolding store_fresh_def st by blast
    moreover have "cache_fresh t d (cache w1 k)"
      using x(2) by (simp add: w1 cache_fresh_def stamp_def)
    ultimately show ?thesis using \<open>digest _ = Some k\<close> by (simp add: fresh_def)
  qed
qed

lemma fresh_read:
  assumes f: "fresh k t a d w"
      and key: "digest (CollectionApplicants, canonical (doc_filter a d)) = Some k"
  shows "\<exists>w2 x2. GetDocument (spec_env digest E) a d w = (w2, x2, None)
           \<and> t \<le> Document.UpdatedAt x2 \<and> DocumentID x2 = d"
proof -
  from f have sf: "store_fresh t a d (store w)" and cf: "cache_fresh t d (cache w k)"
    by (simp_all add: fresh_def)
  from sf obtain r x where r: "find (spec_matches (doc_filter a d)) (store w) = Some r"
    and x: "first_doc d r = [x]" "t \<le> Document.UpdatedAt x"
    unfolding store_fresh_def by blast
  have xi: "DocumentID x = d" using x(1) by (rule first_doc_id)
  show ?thesis
  proof (cases "cache w k")
    case None
    then have "GetDocument (spec_env digest E) a d w
        = (w\<lparr>store_calls := store_calls w @ [FindOneCall (doc_filter a d)],
             cache := (cache w)(k \<mapsto> first_doc d r)\<rparr>, first_or_zero (first_doc d r), None)"
      by (simp only: GetDocument_spec key option.case r)
    moreover have "first_or_zero (first_doc d r) = x"
      by (simp add: x(1) first_or_zero_def)
    ultimately show ?thesis using x(2) xi by simp
  next
    case (Some docs)
    then have g: "GetDocument (spec_env digest E) a d w = (w, first_or_zero docs, None)"
      by (simp only: GetDocument_spec key option.case)
    from cf Some obtain y ys where "docs = y # ys" "DocumentID y = d" "t \<le> Document.UpdatedAt y"
      by (cases docs) (simp_all add: cache_fresh_def)
    then show ?thesis using g by (simp add: first_or_zero_def)
  qed
qed

text \<open>
  C1, as the code has it. After \<^verbatim>\<open>UpdateDocument\<close> on document \<open>d\<close> of applicant
  \<open>a\<close> has completed successfully with clock reading \<open>t\<close>, run any sequence of
  \<^verbatim>\<open>GetDocument\<close> and \<^verbatim>\<open>UpdateDocument\<close> calls, one after the other, whose keys do
  not collide with the key of \<open>(a, d)\<close> and whose updates read the clock at or after
  \<open>t\<close>. Then \<^verbatim>\<open>GetDocument\<close> on \<open>(a, d)\<close> succeeds and returns the document \<open>d\<close>
  with \<^verbatim>\<open>UpdatedAt\<close> at or after \<open>t\<close>, whether it is served from the cache or from
  the store.
\<close>

theorem no_stale_read_after_write:
  assumes w: "UpdateDocument (spec_env digest E) t a d s w = (w1, x1, None)"
      and ops: "list_all (admissible digest t a d) ops"
  shows "\<exists>w2 x2. GetDocument (spec_env digest E) a d (run (spec_env digest E) ops w1)
                   = (w2, x2, None)
           \<and> t \<le> Document.UpdatedAt x2 \<and> DocumentID x2 = d"
proof -
  from fresh_after_write [OF w] obtain k
    where key: "digest (CollectionApplicants, canonical (doc_filter a d)) = Some k"
      and f: "fresh k t a d w1" by blast
  have "fresh k t a d (run (spec_env digest E) ops w1)"
    using f ops by (rule fresh_run [where digest = digest and a = a and d = d, OF key])
  then show ?thesis using key
    by (rule fresh_read [where digest = digest and a = a and d = d])
qed

theorem no_stale_read_after_write_witness:
  "snd (snd (UpdateDocument example_env 10 ''a1'' ''d1'' 1 example_world)) = None
   \<and> list_all (admissible example_digest 10 ''a1'' ''d1'') example_ops
   \<and> (\<exists>w2 x2. GetDocument example_env ''a1'' ''d1''
                  (run example_env example_ops
                     (fst (UpdateDocument example_env 10 ''a1'' ''d1'' 1 example_world)))
                 = (w2, x2, None)
          \<and> 10 \<le> Document.UpdatedAt x2 \<and> DocumentID x2 = ''d1'')"
proof -
  have e: "spec_env example_digest example_env = example_env"
    by (simp add: spec_env_def example_env_def)
  have n: "snd (snd (UpdateDocument example_env 10 ''a1'' ''d1'' 1 example_world)) = None"
    by code_simp
  have u: "UpdateDocument (spec_env example_digest example_env) 10 ''a1'' ''d1'' 1 example_world
         = (fst (UpdateDocument example_env 10 ''a1'' ''d1'' 1 example_world),
            fst (snd (UpdateDocument example_env 10 ''a1'' ''d1'' 1 example_world)), None)"
    unfolding e using n by (metis prod.collapse)
  have a: "list_all (admissible example_digest 10 ''a1'' ''d1'') example_ops"
    by code_simp
  from no_stale_read_after_write [where digest = example_digest and E = example_env, OF u a]
  show ?thesis using n a unfolding e by simp
qed


text \<open>
  The claim of C1 as stated fails for the other keys whose filter matches the written
  record. \<^verbatim>\<open>UpdateApplicant\<close> at time 10 drops the applicant key only, and the
  projection of document \<^verbatim>\<open>d1\<close> cached before it is served afterwards with its
  \<^verbatim>\<open>UpdatedAt\<close> of 5; \<^verbatim>\<open>UpdateDocument\<close> on \<^verbatim>\<open>d1\<close> at time 10 leaves the sibling
  \<^verbatim>\<open>d2\<close> of the same record with its \<^verbatim>\<open>UpdatedAt\<close> of 6.
\<close>

theorem stale_sibling_projection:
  "cache example_cached_world
      ''applicants:applicant_id=a1;deleted=false;documents.document_id=d1;'' = Some [example_doc1]
   \<and> snd (snd (UpdateApplicant example_env CollectionApplicants 10 ''a1'' [] example_cached_world))
       = None
   \<and> Applicant.UpdatedAt
        (fst (snd (UpdateApplicant example_env CollectionApplicants 10 ''a1'' []
                     example_cached_world))) = 10
   \<and> spec_matches (doc_filter ''a1'' ''d1'')
        (fst (snd (UpdateApplicant example_env CollectionApplicants 10 ''a1'' []
                     example_cached_world)))
   \<and> snd (snd (GetDocument example_env ''a1'' ''d1''
        (fst (UpdateApplicant example_env CollectionApplicants 10 ''a1'' []
                example_cached_world)))) = None
   \<and> \<not> 10 \<le> Document.UpdatedAt (fst (snd (GetDocument example_env ''a1'' ''d1''
        (fst (UpdateApplicant example_env CollectionApplicants 10 ''a1'' []
                example_cached_world)))))
   \<and> snd (snd (UpdateDocument example_env 10 ''a1'' ''d1'' 1 example_world)) = None
   \<and> list_all (spec_matches (doc_filter ''a1'' ''d2''))
        (store (fst (UpdateDocument example_env 10 ''a1'' ''d1'' 1 example_world)))
   \<and> snd (snd (GetDocument example_env ''a1'' ''d2''
        (fst (UpdateDocument example_env 10 ''a1'' ''d1'' 1 example_world)))) = None
   \<and> \<not> 10 \<le> Document.UpdatedAt (fst (snd (GetDocument example_env ''a1'' ''d2''
        (fst (UpdateDocument example_env 10 ''a1'' ''d1'' 1 example_world)))))"
  by code_simp


end
